theory Spec2Isabelle
  imports Main "HOL-Library.Word"
begin

section \<open>Values shared by the whole service\<close>

text \<open>
  The service is one Python module, \<^verbatim>\<open>tiff2jpg.py\<close>. Python strings are modelled as
  \<^typ>\<open>string\<close>, file contents as lists of bytes, and every exception the module can meet
  as a value of \<open>py_exn\<close>; a computation that may raise returns \<open>py_exn + 'a\<close>
  with \<open>Inl\<close> for the exception.
\<close>

type_synonym path = string
type_synonym bytes = "8 word list"

datatype py_exn =
    FileNotFoundError
  | IndexError
  | BadRequestKeyError
  | OSError
  | UnidentifiedImageError
  | ValueError
  | MemoryError

definition UPLOAD_FOLDER :: string where
  "UPLOAD_FOLDER = ''uploads''"

definition OUTPUT_FOLDER :: string where
  "OUTPUT_FOLDER = ''converted''"

definition ALLOWED_EXTENSIONS :: "string set" where
  "ALLOWED_EXTENSIONS = {''tif'', ''tiff''}"

definition MAX_INPUT_FILE_SIZE :: nat where
  "MAX_INPUT_FILE_SIZE = 1 * 1024 * 1024 * 1024"

definition MAX_OUTPUT_FILE_SIZE :: nat where
  "MAX_OUTPUT_FILE_SIZE = 10 * 1024 * 1024"

section \<open>String helpers of Python used by the module\<close>

text \<open>
  \<^verbatim>\<open>str.lower()\<close>. Only the ASCII letters are mapped; every other character is left as
  it is. No character outside \<^verbatim>\<open>A..Z\<close> lowercases to one of \<^verbatim>\<open>t\<close>, \<^verbatim>\<open>i\<close>,
  \<^verbatim>\<open>f\<close> in Python either, so membership of a lowercased suffix in
  \<open>ALLOWED_EXTENSIONS\<close> is the same in both.
\<close>

definition lower_char :: "char \<Rightarrow> char" where
  "lower_char c =
     (case map_of (zip ''ABCDEFGHIJKLMNOPQRSTUVWXYZ'' ''abcdefghijklmnopqrstuvwxyz'') c of
        Some d \<Rightarrow> d
      | None \<Rightarrow> c)"

definition lower :: "string \<Rightarrow> string" where
  "lower s = map lower_char s"

text \<open>
  \<^verbatim>\<open>s.rsplit(sep, 1)\<close>: split once at the last occurrence of \<open>sep\<close>; a string without
  \<open>sep\<close> comes back as the only element.
\<close>

definition rsplit1 :: "char \<Rightarrow> string \<Rightarrow> string list" where
  "rsplit1 sep s =
     (if sep \<in> set s
      then [rev (tl (dropWhile (\<lambda>c. c \<noteq> sep) (rev s))), rev (takeWhile (\<lambda>c. c \<noteq> sep) (rev s))]
      else [s])"

text \<open>Python list indexing with a non-negative index: out of range raises \<^verbatim>\<open>IndexError\<close>.\<close>

definition py_index :: "'a list \<Rightarrow> nat \<Rightarrow> py_exn + 'a" where
  "py_index xs i = (if i < length xs then Inr (xs ! i) else Inl IndexError)"

section \<open>Validator\<close>

text \<open>
  \<^verbatim>\<open>allowed_file(filename)\<close>:
  \<^verbatim>\<open>'.' in filename and filename.rsplit('.', 1)[1].lower() in ALLOWED_EXTENSIONS\<close>.
  The \<^verbatim>\<open>and\<close> short-circuits, so the index is only evaluated when a dot is present.
\<close>

definition allowed_file :: "string \<Rightarrow> py_exn + bool" where
  "allowed_file filename =
     (if CHR ''.'' \<in> set filename
      then (case py_index (rsplit1 CHR ''.'' filename) 1 of
              Inl e \<Rightarrow> Inl e
            | Inr suffix \<Rightarrow> Inr (lower suffix \<in> ALLOWED_EXTENSIONS))
      else Inr False)"

text \<open>
  An uploaded file (werkzeug's \<^verbatim>\<open>FileStorage\<close>): the client's file name and a seekable
  byte stream, that is its whole content and the current read position.
\<close>

record file_storage =
  filename :: string
  stream_data :: bytes
  stream_pos :: nat

text \<open>\<^verbatim>\<open>file.seek(0, os.SEEK_END)\<close>, \<^verbatim>\<open>file.tell()\<close>, \<^verbatim>\<open>file.seek(0)\<close> and \<^verbatim>\<open>file.read()\<close>.\<close>

definition seek_end :: "file_storage \<Rightarrow> file_storage" where
  "seek_end f = f\<lparr>stream_pos := length (stream_data f)\<rparr>"

definition tell :: "file_storage \<Rightarrow> nat" where
  "tell f = stream_pos f"

definition seek_start :: "file_storage \<Rightarrow> file_storage" where
  "seek_start f = f\<lparr>stream_pos := 0\<rparr>"

definition read_all :: "file_storage \<Rightarrow> bytes \<times> file_storage" where
  "read_all f = (drop (stream_pos f) (stream_data f), f\<lparr>stream_pos := length (stream_data f)\<rparr>)"

text \<open>
  \<^verbatim>\<open>check_file_size(file)\<close>: returns the verdict together with the stream as the call
  leaves it.
\<close>

definition check_file_size :: "file_storage \<Rightarrow> bool \<times> file_storage" where
  "check_file_size file =
     (let file1 = seek_end file;
          size = tell file1;
          file2 = seek_start file1
      in (size \<le> MAX_INPUT_FILE_SIZE, file2))"

section \<open>The filesystem\<close>

text \<open>
  The filesystem is a finite map from paths to contents. Every call of \<^verbatim>\<open>os.remove\<close> is
  also recorded, in call order, with its outcome, so that statements about how often and
  how successfully files are deleted can be made. \<^verbatim>\<open>os.remove\<close> raises
  \<^verbatim>\<open>FileNotFoundError\<close> on an absent path and succeeds on a present one.
\<close>

datatype fs_event = Removed path | RemoveFailed path

record world =
  fs :: "path \<rightharpoonup> bytes"
  events :: "fs_event list"

definition os_path_exists :: "path \<Rightarrow> world \<Rightarrow> bool" where
  "os_path_exists p w = (fs w p \<noteq> None)"

definition os_path_getsize :: "path \<Rightarrow> world \<Rightarrow> py_exn + nat" where
  "os_path_getsize p w =
     (case fs w p of None \<Rightarrow> Inl FileNotFoundError | Some b \<Rightarrow> Inr (length b))"

definition os_remove :: "path \<Rightarrow> world \<Rightarrow> (py_exn + unit) \<times> world" where
  "os_remove p w =
     (case fs w p of
        None \<Rightarrow> (Inl FileNotFoundError, w\<lparr>events := events w @ [RemoveFailed p]\<rparr>)
      | Some b \<Rightarrow> (Inr (), w\<lparr>fs := (fs w)(p := None), events := events w @ [Removed p]\<rparr>))"

text \<open>\<^verbatim>\<open>os.path.join(a, b)\<close> of \<^verbatim>\<open>posixpath\<close>.\<close>

definition os_path_join :: "string \<Rightarrow> string \<Rightarrow> string" where
  "os_path_join a b =
     (if take 1 b = ''/'' then b
      else if a = [] \<or> last a = CHR ''/'' then a @ b
      else a @ ''/'' @ b)"

definition write_file :: "path \<Rightarrow> bytes \<Rightarrow> world \<Rightarrow> world" where
  "write_file p b w = w\<lparr>fs := (fs w)(p \<mapsto> b)\<rparr>"

text \<open>
  What a failed write leaves at its target: the target as it was, no file, or a file with
  some content.
\<close>

datatype leftover = Untouched | Absent | Partial bytes

definition apply_leftover :: "path \<Rightarrow> leftover \<Rightarrow> world \<Rightarrow> world" where
  "apply_leftover p l w =
     (case l of
        Untouched \<Rightarrow> w
      | Absent \<Rightarrow> w\<lparr>fs := (fs w)(p := None)\<rparr>
      | Partial b \<Rightarrow> w\<lparr>fs := (fs w)(p \<mapsto> b)\<rparr>)"

section \<open>External collaborators\<close>

text \<open>
  A decoded image, as far as the module looks at it: its pixel dimensions
  (\<^verbatim>\<open>img.size\<close>) and the bytes it was decoded from.
\<close>

record image =
  width :: nat
  height :: nat
  source :: bytes

text \<open>
  The libraries the module calls are parameters of the model:
  \<^item> \<open>secure_filename\<close>: werkzeug's \<^verbatim>\<open>secure_filename\<close>;
  \<^item> \<open>image_open\<close>: Pillow's decoder (\<^verbatim>\<open>Image.open\<close>), which raises on undecodable content;
  \<^item> \<open>image_save_jpeg\<close>: \<^verbatim>\<open>img.save(path, 'JPEG', quality=80, optimize=True)\<close>, which
    either produces the encoded bytes (then written at \<open>path\<close>) or raises, leaving a
    \<open>leftover\<close> at \<open>path\<close>;
  \<^item> \<open>upload_fault\<close>: whether storing an upload at a path fails (an I/O error), and what
    it leaves there.
\<close>

record env =
  secure_filename :: "string \<Rightarrow> string"
  image_open :: "bytes \<Rightarrow> py_exn + image"
  image_save_jpeg :: "image \<Rightarrow> path \<Rightarrow> (py_exn \<times> leftover) + bytes"
  upload_fault :: "path \<Rightarrow> bytes \<Rightarrow> (py_exn \<times> leftover) option"

text \<open>
  \<^verbatim>\<open>file.save(dst)\<close>: copies the stream from its current position into \<open>dst\<close>. The
  stream is not read again afterwards, so its new position is not kept.
\<close>

definition file_save :: "env \<Rightarrow> file_storage \<Rightarrow> path \<Rightarrow> world \<Rightarrow> (py_exn + unit) \<times> world" where
  "file_save env file dst w =
     (let b = drop (stream_pos file) (stream_data file)
      in case upload_fault env dst b of
           Some (e, l) \<Rightarrow> (Inl e, apply_leftover dst l w)
         | None \<Rightarrow> (Inr (), write_file dst b w))"

text \<open>Rounding \<open>a / b\<close> to the nearest natural number, halves upwards.\<close>

definition round_div :: "nat \<Rightarrow> nat \<Rightarrow> nat" where
  "round_div a b = (2 * a + b) div (2 * b)"

text \<open>
  Modelled from the spec: Pillow's \<^verbatim>\<open>Image.thumbnail\<close> is called by the module but is not
  part of the repository. The spec (4.2, step 2) says of the call: downscale preserving
  aspect ratio so the longer side equals the corresponding \<open>maxDimensions\<close> value. The
  shorter side is scaled by the same factor, rounded to a whole number of pixels, and is
  at least one pixel.
\<close>

definition thumbnail :: "nat \<times> nat \<Rightarrow> image \<Rightarrow> image" where
  "thumbnail max_size img =
     (if height img \<le> width img
      then img\<lparr>width := fst max_size,
               height := max 1 (round_div (height img * fst max_size) (width img))\<rparr>
      else img\<lparr>width := max 1 (round_div (width img * snd max_size) (height img)),
               height := snd max_size\<rparr>)"

section \<open>Converter\<close>

text \<open>
  Lines 45 and 46 of \<^verbatim>\<open>convert_tif_to_jpg\<close>:
  \<^verbatim>\<open>if max(img.size) > max(max_size): img.thumbnail(max_size, LANCZOS)\<close>.
\<close>

definition resize_if_exceeds :: "nat \<times> nat \<Rightarrow> image \<Rightarrow> image" where
  "resize_if_exceeds max_size img =
     (if max (width img) (height img) > max (fst max_size) (snd max_size)
      then thumbnail max_size img
      else img)"

text \<open>\<^verbatim>\<open>img.save(output_path, 'JPEG', quality=80, optimize=True)\<close> on the filesystem.\<close>

definition img_save :: "env \<Rightarrow> image \<Rightarrow> path \<Rightarrow> world \<Rightarrow> (py_exn + unit) \<times> world" where
  "img_save env img output_path w =
     (case image_save_jpeg env img output_path of
        Inl (e, l) \<Rightarrow> (Inl e, apply_leftover output_path l w)
      | Inr jpg \<Rightarrow> (Inr (), write_file output_path jpg w))"

text \<open>The body of the \<^verbatim>\<open>try\<close> of \<^verbatim>\<open>convert_tif_to_jpg\<close>: open, resize, save.\<close>

definition convert_body ::
  "env \<Rightarrow> path \<Rightarrow> path \<Rightarrow> nat \<times> nat \<Rightarrow> world \<Rightarrow> (py_exn + unit) \<times> world" where
  "convert_body env input_path output_path max_size w =
     (case fs w input_path of
        None \<Rightarrow> (Inl FileNotFoundError, w)
      | Some b \<Rightarrow>
          (case image_open env b of
             Inl e \<Rightarrow> (Inl e, w)
           | Inr img \<Rightarrow>
               img_save env (resize_if_exceeds max_size img) output_path w))"

text \<open>
  \<^verbatim>\<open>convert_tif_to_jpg\<close>: the body under \<^verbatim>\<open>try\<close>, with \<^verbatim>\<open>except Exception\<close> turning
  every exception into \<^verbatim>\<open>False\<close>.
\<close>

definition convert_tif_to_jpg ::
  "env \<Rightarrow> path \<Rightarrow> path \<Rightarrow> nat \<times> nat \<Rightarrow> world \<Rightarrow> bool \<times> world" where
  "convert_tif_to_jpg env input_path output_path max_size w =
     (case convert_body env input_path output_path max_size w of
        (Inr u, w') \<Rightarrow> (True, w')
      | (Inl e, w') \<Rightarrow> (False, w'))"

section \<open>Responses\<close>

text \<open>
  What a view function returns to Flask:
  \<^item> \<open>JsonError msg status\<close> is \<^verbatim>\<open>{'error': msg}, status\<close>;
  \<^item> \<open>FileResponse body mimetype download_name\<close> is the result of \<^verbatim>\<open>send_file\<close>
    (status 200, sent as an attachment);
  \<^item> \<open>BatchJson successes failures status\<close> is the batch endpoint's
    \<^verbatim>\<open>{'successful_conversions': [...], 'failed_conversions': [...]}, status\<close>.
  An exception that leaves the view function is the \<open>Inl\<close> of its result.
\<close>

record success_entry =
  ok_filename :: string
  ok_output_path :: path
  ok_output_size_mb :: nat

record failure_entry =
  failed_filename :: string
  failed_reason :: string

datatype response =
    JsonError string nat
  | FileResponse bytes string string
  | BatchJson "success_entry list" "failure_entry list" nat

text \<open>A request, as far as the views read it: \<^verbatim>\<open>request.files\<close>, from field names to files.\<close>

record request =
  request_files :: "string \<rightharpoonup> file_storage list"

text \<open>
  \<^verbatim>\<open>send_file(path, mimetype=.., as_attachment=True, download_name=..)\<close>: raises when the
  path is absent.
\<close>

definition send_file :: "path \<Rightarrow> string \<Rightarrow> string \<Rightarrow> world \<Rightarrow> py_exn + response" where
  "send_file p mimetype download_name w =
     (case fs w p of
        None \<Rightarrow> Inl FileNotFoundError
      | Some body \<Rightarrow> Inr (FileResponse body mimetype download_name))"

section \<open>Number formatting\<close>

text \<open>
  A byte count divided by \<^verbatim>\<open>1024*1024\<close> is exact in binary floating point (for counts
  below \<open>2 ^ 53\<close>), and both \<^verbatim>\<open>round(x, 2)\<close> and the format \<^verbatim>\<open>:.1f\<close> round that exact
  value to the nearest decimal, ties to the even digit. So both are computed on integers:
  \<open>round_half_even a b\<close> is \<open>a / b\<close> rounded to a whole number.
\<close>

definition round_half_even :: "nat \<Rightarrow> nat \<Rightarrow> nat" where
  "round_half_even a b =
     (let q = a div b; r = a mod b
      in if 2 * r > b \<or> (2 * r = b \<and> odd q) then q + 1 else q)"

fun show_nat :: "nat \<Rightarrow> string" where
  "show_nat n =
     (if n < 10 then [''0123456789'' ! n]
      else show_nat (n div 10) @ [''0123456789'' ! (n mod 10)])"

text \<open>\<^verbatim>\<open>f"{nbytes/(1024*1024):.1f}"\<close>\<close>

definition format_mb_1f :: "nat \<Rightarrow> string" where
  "format_mb_1f nbytes =
     (let t = round_half_even (nbytes * 10) (1024 * 1024)
      in show_nat (t div 10) @ ''.'' @ show_nat (t mod 10))"

text \<open>\<^verbatim>\<open>round(nbytes / (1024 * 1024), 2)\<close>, in hundredths of a megabyte.\<close>

definition round_mb_2 :: "nat \<Rightarrow> nat" where
  "round_mb_2 nbytes = round_half_even (nbytes * 100) (1024 * 1024)"

section \<open>Single-file pipeline\<close>

text \<open>The paths both endpoints derive from the uploaded file's name (lines 93 to 96).\<close>

definition input_path_of :: "env \<Rightarrow> file_storage \<Rightarrow> path" where
  "input_path_of env file = os_path_join UPLOAD_FOLDER (secure_filename env (filename file))"

text \<open>\<^verbatim>\<open>rsplit\<close> never returns an empty list, so its element 0 always exists.\<close>

definition output_filename_of :: "env \<Rightarrow> file_storage \<Rightarrow> string" where
  "output_filename_of env file =
     hd (rsplit1 CHR ''.'' (secure_filename env (filename file))) @ ''.jpg''"

definition output_path_of :: "env \<Rightarrow> file_storage \<Rightarrow> path" where
  "output_path_of env file = os_path_join OUTPUT_FOLDER (output_filename_of env file)"

text \<open>
  The body of the \<^verbatim>\<open>try\<close> of \<^verbatim>\<open>convert_image\<close> (lines 93 to 125); \<open>Inl\<close> is an
  exception raised inside it.
\<close>

definition convert_image_try :: "env \<Rightarrow> file_storage \<Rightarrow> world \<Rightarrow> (py_exn + response) \<times> world" where
  "convert_image_try env file w =
     (let input_path = input_path_of env file;
          output_filename = output_filename_of env file;
          output_path = output_path_of env file
      in case file_save env file input_path w of
           (Inl e, w1) \<Rightarrow> (Inl e, w1)
         | (Inr u, w1) \<Rightarrow>
             (case convert_tif_to_jpg env input_path output_path (2800, 2800) w1 of
                (True, w2) \<Rightarrow>
                  (case os_remove input_path w2 of
                     (Inl e, w3) \<Rightarrow> (Inl e, w3)
                   | (Inr u, w3) \<Rightarrow>
                       (case os_path_getsize output_path w3 of
                          Inl e \<Rightarrow> (Inl e, w3)
                        | Inr output_size \<Rightarrow>
                            if output_size > MAX_OUTPUT_FILE_SIZE
                            then (case os_remove output_path w3 of
                                    (Inl e, w4) \<Rightarrow> (Inl e, w4)
                                  | (Inr u, w4) \<Rightarrow>
                                      (Inr (JsonError (''Output file size ('' @ format_mb_1f output_size
                                                        @ ''MB) exceeds limit of 10.0MB'') 400), w4))
                            else (send_file output_path ''image/jpeg'' output_filename w3, w3)))
              | (False, w2) \<Rightarrow>
                  (case (if os_path_exists input_path w2 then os_remove input_path w2
                         else (Inr (), w2)) of
                     (Inl e, w3) \<Rightarrow> (Inl e, w3)
                   | (Inr u, w3) \<Rightarrow> (Inr (JsonError ''Conversion failed'' 500), w3))))"

text \<open>
  The \<^verbatim>\<open>try\<close> with its \<^verbatim>\<open>except Exception\<close> handler (lines 92 to 131): the part of
  \<^verbatim>\<open>convert_image\<close> that runs once the upload has passed validation. An exception raised
  by the handler itself leaves the view.
\<close>

definition convert_image_pipeline ::
  "env \<Rightarrow> file_storage \<Rightarrow> world \<Rightarrow> (py_exn + response) \<times> world" where
  "convert_image_pipeline env file w =
     (case convert_image_try env file w of
        (Inr r, w') \<Rightarrow> (Inr r, w')
      | (Inl e, w') \<Rightarrow>
          (case (if os_path_exists (input_path_of env file) w'
                 then os_remove (input_path_of env file) w'
                 else (Inr (), w')) of
             (Inl e', w'') \<Rightarrow> (Inl e', w'')
           | (Inr u, w'') \<Rightarrow> (Inr (JsonError ''Internal server error'' 500), w'')))"

text \<open>
  \<^verbatim>\<open>convert_image\<close>, the view of \<^verbatim>\<open>POST /convert\<close>. \<^verbatim>\<open>request.files['file']\<close> is the
  first file of the field and raises for a field without files. The message of the size
  check is \<^verbatim>\<open>MAX_INPUT_FILE_SIZE / (1024 * 1024)\<close>, that is \<^verbatim>\<open>1024.0\<close>, formatted into
  the text.
\<close>

definition convert_image :: "env \<Rightarrow> request \<Rightarrow> world \<Rightarrow> (py_exn + response) \<times> world" where
  "convert_image env req w =
     (case request_files req ''file'' of
        None \<Rightarrow> (Inr (JsonError ''No file provided'' 400), w)
      | Some [] \<Rightarrow> (Inl BadRequestKeyError, w)
      | Some (file # others) \<Rightarrow>
          if filename file = '''' then (Inr (JsonError ''No file selected'' 400), w)
          else (case allowed_file (filename file) of
                  Inl e \<Rightarrow> (Inl e, w)
                | Inr allowed \<Rightarrow>
                    if \<not> allowed
                    then (Inr (JsonError ''Invalid file type. Only TIF/TIFF files are allowed'' 400), w)
                    else (case check_file_size file of
                            (within, file') \<Rightarrow>
                              if \<not> within
                              then (Inr (JsonError ''File size exceeds maximum limit of 1024.0MB'' 400), w)
                              else convert_image_pipeline env file' w)))"

section \<open>Batch pipeline\<close>

type_synonym batch_response = "success_entry list \<times> failure_entry list"

definition add_success :: "success_entry \<Rightarrow> batch_response \<Rightarrow> batch_response" where
  "add_success e resp = (fst resp @ [e], snd resp)"

definition add_failure :: "string \<Rightarrow> string \<Rightarrow> batch_response \<Rightarrow> batch_response" where
  "add_failure name reason resp =
     (fst resp, snd resp @ [\<lparr>failed_filename = name, failed_reason = reason\<rparr>])"

text \<open>
  Lines 189 to 209: convert, then check the output size. The response dictionary is
  mutated in place, so it is part of the state an exception leaves behind.
\<close>

definition batch_convert_step ::
  "env \<Rightarrow> file_storage \<Rightarrow> batch_response \<Rightarrow> world \<Rightarrow> (py_exn + unit) \<times> batch_response \<times> world" where
  "batch_convert_step env file resp w1 =
     (let input_path = input_path_of env file;
          output_path = output_path_of env file
      in case convert_tif_to_jpg env input_path output_path (2800, 2800) w1 of
           (True, w2) \<Rightarrow>
             (case os_path_getsize output_path w2 of
                Inl e \<Rightarrow> (Inl e, resp, w2)
              | Inr output_size \<Rightarrow>
                  if output_size \<le> MAX_OUTPUT_FILE_SIZE
                  then (Inr (),
                        add_success \<lparr>ok_filename = filename file,
                                     ok_output_path = output_path,
                                     ok_output_size_mb = round_mb_2 output_size\<rparr> resp,
                        w2)
                  else (case os_remove output_path w2 of
                          (Inl e, w3) \<Rightarrow> (Inl e, resp, w3)
                        | (Inr u, w3) \<Rightarrow>
                            (Inr (),
                             add_failure (filename file)
                               (''Output file size ('' @ format_mb_1f output_size
                                @ ''MB) exceeds limit'') resp,
                             w3)))
         | (False, w2) \<Rightarrow> (Inr (), add_failure (filename file) ''Conversion failed'' resp, w2))"

text \<open>The body of the \<^verbatim>\<open>try\<close> in the loop (lines 180 to 213).\<close>

definition batch_file_try ::
  "env \<Rightarrow> file_storage \<Rightarrow> batch_response \<Rightarrow> world \<Rightarrow> (py_exn + unit) \<times> batch_response \<times> world" where
  "batch_file_try env file resp w =
     (let input_path = input_path_of env file
      in case file_save env file input_path w of
           (Inl e, w1) \<Rightarrow> (Inl e, resp, w1)
         | (Inr u, w1) \<Rightarrow>
             (case batch_convert_step env file resp w1 of
                (Inl e, resp', w') \<Rightarrow> (Inl e, resp', w')
              | (Inr u, resp', w') \<Rightarrow>
                  if os_path_exists input_path w'
                  then (case os_remove input_path w' of
                          (Inl e, w'') \<Rightarrow> (Inl e, resp', w'')
                        | (Inr u, w'') \<Rightarrow> (Inr (), resp', w''))
                  else (Inr (), resp', w')))"

text \<open>The \<^verbatim>\<open>try\<close> with its handler (lines 179 to 222).\<close>

definition batch_file_pipeline ::
  "env \<Rightarrow> file_storage \<Rightarrow> batch_response \<Rightarrow> world \<Rightarrow> (py_exn + batch_response) \<times> world" where
  "batch_file_pipeline env file resp w =
     (case batch_file_try env file resp w of
        (Inr u, resp', w') \<Rightarrow> (Inr resp', w')
      | (Inl e, resp', w') \<Rightarrow>
          (let resp'' = add_failure (filename file) ''Processing error'' resp'
           in if os_path_exists (input_path_of env file) w'
              then (case os_remove (input_path_of env file) w' of
                      (Inl e', w'') \<Rightarrow> (Inl e', w'')
                    | (Inr u, w'') \<Rightarrow> (Inr resp'', w''))
              else (Inr resp'', w')))"

text \<open>One iteration of the loop over the files (lines 158 to 222).\<close>

definition batch_file ::
  "env \<Rightarrow> file_storage \<Rightarrow> batch_response \<Rightarrow> world \<Rightarrow> (py_exn + batch_response) \<times> world" where
  "batch_file env file resp w =
     (if filename file = '''' then (Inr (add_failure ''Unnamed'' ''File has no name'' resp), w)
      else (case allowed_file (filename file) of
              Inl e \<Rightarrow> (Inl e, w)
            | Inr allowed \<Rightarrow>
                if \<not> allowed then (Inr (add_failure (filename file) ''Invalid file type'' resp), w)
                else (case check_file_size file of
                        (within, file') \<Rightarrow>
                          if \<not> within
                          then (Inr (add_failure (filename file)
                                       ''File size exceeds 1024.0MB limit'' resp), w)
                          else batch_file_pipeline env file' resp w)))"

text \<open>The loop \<^verbatim>\<open>for file in files\<close>; an exception that leaves an iteration ends it.\<close>

fun batch_loop ::
  "env \<Rightarrow> file_storage list \<Rightarrow> batch_response \<Rightarrow> world \<Rightarrow> (py_exn + batch_response) \<times> world" where
  "batch_loop env [] resp w = (Inr resp, w)"
| "batch_loop env (file # rest) resp w =
     (case batch_file env file resp w of
        (Inl e, w') \<Rightarrow> (Inl e, w')
      | (Inr resp', w') \<Rightarrow> batch_loop env rest resp' w')"

text \<open>\<^verbatim>\<open>batch_convert_images\<close>, the view of \<^verbatim>\<open>POST /batch-convert\<close>.\<close>

definition batch_convert_images :: "env \<Rightarrow> request \<Rightarrow> world \<Rightarrow> (py_exn + response) \<times> world" where
  "batch_convert_images env req w =
     (case request_files req ''files[]'' of
        None \<Rightarrow> (Inr (JsonError ''No files provided'' 400), w)
      | Some files \<Rightarrow>
          if files = [] \<or> length files = 0 then (Inr (JsonError ''No files selected'' 400), w)
          else if length files > 150
          then (Inr (JsonError ''Maximum 150 files allowed per batch'' 400), w)
          else (case batch_loop env files ([], []) w of
                  (Inl e, w') \<Rightarrow> (Inl e, w')
                | (Inr resp, w') \<Rightarrow>
                    (Inr (BatchJson (fst resp) (snd resp) (if fst resp \<noteq> [] then 200 else 400)),
                     w')))"

section \<open>Vocabulary of the properties\<close>

text \<open>
  The paths deleted successfully, and the paths on which a delete raised, in a sequence of
  filesystem events.
\<close>

fun removed_paths :: "fs_event list \<Rightarrow> path list" where
  "removed_paths [] = []"
| "removed_paths (Removed p # es) = p # removed_paths es"
| "removed_paths (RemoveFailed p # es) = removed_paths es"

fun failed_removes :: "fs_event list \<Rightarrow> path list" where
  "failed_removes [] = []"
| "failed_removes (Removed p # es) = failed_removes es"
| "failed_removes (RemoveFailed p # es) = p # failed_removes es"

text \<open>
  A run from \<open>w\<close> to \<open>w'\<close> is clean for the path \<open>p\<close> when \<open>p\<close> does not exist in \<open>w'\<close>,
  no delete of the run raised, and no path was deleted twice in the run.
\<close>

definition clean_run :: "path \<Rightarrow> world \<Rightarrow> world \<Rightarrow> bool" where
  "clean_run p w w' =
     (fs w' p = None \<and>
      (\<exists>new. events w' = events w @ new \<and> failed_removes new = [] \<and>
             distinct (removed_paths new)))"

text \<open>
  An upload passes validation when it gets through the three checks that precede the
  \<^verbatim>\<open>try\<close> of both endpoints: a non-empty name, an allowed extension, an allowed size.
\<close>

definition passes_validation :: "file_storage \<Rightarrow> bool" where
  "passes_validation file =
     (filename file \<noteq> '''' \<and> allowed_file (filename file) = Inr True \<and>
      length (stream_data file) \<le> MAX_INPUT_FILE_SIZE)"

text \<open>The upload as \<open>check_file_size\<close> hands it on to the pipeline.\<close>

definition rewound :: "file_storage \<Rightarrow> file_storage" where
  "rewound file = snd (check_file_size file)"

text \<open>The name under which the batch endpoint reports a failed file.\<close>

definition reported_name :: "file_storage \<Rightarrow> string" where
  "reported_name file = (if filename file = '''' then ''Unnamed'' else filename file)"

text \<open>The files, in input order, to which a list of per-file verdicts assigns \<open>v\<close>.\<close>

definition files_with_verdict :: "bool \<Rightarrow> file_storage list \<Rightarrow> bool list \<Rightarrow> file_storage list" where
  "files_with_verdict v files verdicts = map fst (filter (\<lambda>fv. snd fv = v) (zip files verdicts))"

section \<open>Example inputs\<close>

text \<open>
  Concrete collaborators and requests on which the theorems below are exercised. The
  example decoder rejects empty content and otherwise reports an image of the given
  dimensions; the example encoder produces the given bytes; the example name sanitizer
  leaves a name as it is (as werkzeug does for names such as \<^verbatim>\<open>a.tif\<close>).
\<close>

definition example_env :: "nat \<Rightarrow> nat \<Rightarrow> bytes \<Rightarrow> env" where
  "example_env w h jpg =
     \<lparr>secure_filename = (\<lambda>s. s),
      image_open = (\<lambda>b. if b = [] then Inl UnidentifiedImageError
                        else Inr \<lparr>width = w, height = h, source = b\<rparr>),
      image_save_jpeg = (\<lambda>img p. Inr jpg),
      upload_fault = (\<lambda>p b. None)\<rparr>"

definition example_world :: world where
  "example_world = \<lparr>fs = Map.empty, events = []\<rparr>"

definition example_file :: "string \<Rightarrow> bytes \<Rightarrow> file_storage" where
  "example_file name content = \<lparr>filename = name, stream_data = content, stream_pos = 0\<rparr>"

definition example_request :: "file_storage \<Rightarrow> request" where
  "example_request f = \<lparr>request_files = [''file'' \<mapsto> [f]]\<rparr>"

definition example_batch :: "file_storage list \<Rightarrow> request" where
  "example_batch files = \<lparr>request_files = [''files[]'' \<mapsto> files]\<rparr>"

text \<open>An environment in which storing an upload fails, leaving an empty file behind.\<close>

definition example_faulty_env :: env where
  "example_faulty_env =
     (example_env 100 100 [7])\<lparr>upload_fault := (\<lambda>p b. Some (OSError, Partial []))\<rparr>"

section \<open>Properties of the validator\<close>

lemma rsplit1_dot_decomp:
  assumes "sep \<in> set s"
  shows "s = rev (tl (dropWhile (\<lambda>c. c \<noteq> sep) (rev s))) @ sep # rev (takeWhile (\<lambda>c. c \<noteq> sep) (rev s))"
proof -
  let ?P = "\<lambda>c. c \<noteq> sep"
  have ne: "dropWhile ?P (rev s) \<noteq> []"
    using assms by (simp add: dropWhile_eq_Nil_conv)
  then have hd: "hd (dropWhile ?P (rev s)) = sep"
    using hd_dropWhile [of ?P "rev s"] by simp
  have "rev s = takeWhile ?P (rev s) @ dropWhile ?P (rev s)"
    by simp
  also have "dropWhile ?P (rev s) = sep # tl (dropWhile ?P (rev s))"
    using ne hd by (cases "dropWhile ?P (rev s)") simp_all
  finally have "rev (rev s) = rev (takeWhile ?P (rev s) @ sep # tl (dropWhile ?P (rev s)))"
    by simp
  then show ?thesis by simp
qed

lemma suffix_after_last_unique:
  assumes "s = pre @ sep # suf" and "sep \<notin> set suf"
  shows "rev (takeWhile (\<lambda>c. c \<noteq> sep) (rev s)) = suf"
proof -
  have "rev s = rev suf @ sep # rev pre"
    using assms(1) by simp
  moreover have "takeWhile (\<lambda>c. c \<noteq> sep) (rev suf @ sep # rev pre) = rev suf"
    using assms(2) by (auto simp: takeWhile_tail)
  ultimately show ?thesis by simp
qed

lemma suffix_after_last_no_sep:
  "sep \<notin> set (rev (takeWhile (\<lambda>c. c \<noteq> sep) (rev s)))"
proof
  assume "sep \<in> set (rev (takeWhile (\<lambda>c. c \<noteq> sep) (rev s)))"
  then have "sep \<in> set (takeWhile (\<lambda>c. c \<noteq> sep) (rev s))" by simp
  then show False using set_takeWhileD by fastforce
qed

lemma lower_char_t: "(lower_char c = CHR ''t'') = (c = CHR ''t'' \<or> c = CHR ''T'')"
  by (simp add: lower_char_def)

lemma lower_char_i: "(lower_char c = CHR ''i'') = (c = CHR ''i'' \<or> c = CHR ''I'')"
  by (simp add: lower_char_def)

lemma lower_char_f: "(lower_char c = CHR ''f'') = (c = CHR ''f'' \<or> c = CHR ''F'')"
  by (simp add: lower_char_def)

lemma map_eq_3:
  "(map g s = [x, y, z]) = (\<exists>a b c. s = [a, b, c] \<and> g a = x \<and> g b = y \<and> g c = z)"
  by (simp add: map_eq_Cons_conv) blast

lemma map_eq_4:
  "(map g s = [x, y, z, u]) =
     (\<exists>a b c d. s = [a, b, c, d] \<and> g a = x \<and> g b = y \<and> g c = z \<and> g d = u)"
  by (simp add: map_eq_Cons_conv) blast

lemma lower_tif:
  "(lower s = ''tif'') =
     (\<exists>a b c. s = [a, b, c] \<and> a \<in> {CHR ''t'', CHR ''T''} \<and> b \<in> {CHR ''i'', CHR ''I''} \<and>
              c \<in> {CHR ''f'', CHR ''F''})"
  unfolding lower_def map_eq_3 lower_char_t lower_char_i lower_char_f by simp

lemma lower_tiff:
  "(lower s = ''tiff'') =
     (\<exists>a b c d. s = [a, b, c, d] \<and> a \<in> {CHR ''t'', CHR ''T''} \<and> b \<in> {CHR ''i'', CHR ''I''} \<and>
                c \<in> {CHR ''f'', CHR ''F''} \<and> d \<in> {CHR ''f'', CHR ''F''})"
  unfolding lower_def map_eq_4 lower_char_t lower_char_i lower_char_f by simp

lemma allowed_file_by_lower:
  "allowed_file f =
     Inr (CHR ''.'' \<in> set f \<and>
          (\<exists>pre suf. f = pre @ CHR ''.'' # suf \<and> CHR ''.'' \<notin> set suf \<and>
                     (lower suf = ''tif'' \<or> lower suf = ''tiff'')))"
proof (cases "CHR ''.'' \<in> set f")
  case False
  then show ?thesis by (simp add: allowed_file_def)
next
  case True
  let ?suf = "rev (takeWhile (\<lambda>c. c \<noteq> CHR ''.'') (rev f))"
  let ?pre = "rev (tl (dropWhile (\<lambda>c. c \<noteq> CHR ''.'') (rev f)))"
  have dec: "f = ?pre @ CHR ''.'' # ?suf"
    using rsplit1_dot_decomp [OF True] .
  have nodot: "CHR ''.'' \<notin> set ?suf"
    by (rule suffix_after_last_no_sep)
  have val: "allowed_file f = Inr (lower ?suf \<in> ALLOWED_EXTENSIONS)"
    using True by (simp add: allowed_file_def rsplit1_def py_index_def)
  have "(lower ?suf \<in> ALLOWED_EXTENSIONS) =
        (\<exists>pre suf. f = pre @ CHR ''.'' # suf \<and> CHR ''.'' \<notin> set suf \<and>
                   (lower suf = ''tif'' \<or> lower suf = ''tiff''))"
  proof
    assume "lower ?suf \<in> ALLOWED_EXTENSIONS"
    then have "lower ?suf = ''tif'' \<or> lower ?suf = ''tiff''"
      by (simp add: ALLOWED_EXTENSIONS_def)
    with dec nodot show "\<exists>pre suf. f = pre @ CHR ''.'' # suf \<and> CHR ''.'' \<notin> set suf \<and>
                   (lower suf = ''tif'' \<or> lower suf = ''tiff'')"
      by blast
  next
    assume "\<exists>pre suf. f = pre @ CHR ''.'' # suf \<and> CHR ''.'' \<notin> set suf \<and>
                   (lower suf = ''tif'' \<or> lower suf = ''tiff'')"
    then obtain pre suf where f: "f = pre @ CHR ''.'' # suf" and n: "CHR ''.'' \<notin> set suf"
      and l: "lower suf = ''tif'' \<or> lower suf = ''tiff''"
      by blast
    have "?suf = suf"
      using suffix_after_last_unique [OF f n] .
    with l show "lower ?suf \<in> ALLOWED_EXTENSIONS"
      by (auto simp: ALLOWED_EXTENSIONS_def)
  qed
  with val True show ?thesis by simp
qed

text \<open>
  C8. For every file name, \<open>allowed_file\<close> returns (without raising) whether the name
  contains a dot and the text after its last dot is \<^verbatim>\<open>tif\<close> or \<^verbatim>\<open>tiff\<close> in any
  mixture of upper and lower case: three characters, a \<^verbatim>\<open>t\<close> or \<^verbatim>\<open>T\<close>, an \<^verbatim>\<open>i\<close> or
  \<^verbatim>\<open>I\<close>, an \<^verbatim>\<open>f\<close> or \<^verbatim>\<open>F\<close>, optionally followed by one more \<^verbatim>\<open>f\<close> or \<^verbatim>\<open>F\<close>.
  This is the same as the lowercased suffix being \<^verbatim>\<open>tif\<close> or \<^verbatim>\<open>tiff\<close>. A name without a
  dot is therefore rejected.
\<close>

theorem allowed_file_iff:
  "allowed_file f =
     Inr (CHR ''.'' \<in> set f \<and>
          (\<exists>pre suf. f = pre @ CHR ''.'' # suf \<and> CHR ''.'' \<notin> set suf \<and>
             ((\<exists>a b c. suf = [a, b, c] \<and> a \<in> {CHR ''t'', CHR ''T''} \<and>
                        b \<in> {CHR ''i'', CHR ''I''} \<and> c \<in> {CHR ''f'', CHR ''F''}) \<or>
              (\<exists>a b c d. suf = [a, b, c, d] \<and> a \<in> {CHR ''t'', CHR ''T''} \<and>
                          b \<in> {CHR ''i'', CHR ''I''} \<and> c \<in> {CHR ''f'', CHR ''F''} \<and>
                          d \<in> {CHR ''f'', CHR ''F''})))) \<and>
   allowed_file f =
     Inr (CHR ''.'' \<in> set f \<and>
          (\<exists>pre suf. f = pre @ CHR ''.'' # suf \<and> CHR ''.'' \<notin> set suf \<and>
                     (lower suf = ''tif'' \<or> lower suf = ''tiff'')))"
  unfolding lower_tif [symmetric] lower_tiff [symmetric]
  using allowed_file_by_lower [of f] by simp

text \<open>
  On concrete names: upper-case and mixed-case extensions are accepted, only the text after
  the last dot counts, and a name with no dot, with another extension, or with an empty
  extension is rejected.
\<close>

theorem allowed_file_iff_witness:
  "allowed_file ''A.TIF'' = Inr True \<and>
   allowed_file ''scan.v2.Tiff'' = Inr True \<and>
   allowed_file ''.tif'' = Inr True \<and>
   allowed_file ''tif'' = Inr False \<and>
   allowed_file ''a.tif.jpg'' = Inr False \<and>
   allowed_file ''a.tif.'' = Inr False \<and>
   allowed_file ''a.tiffs'' = Inr False"
proof -
  have p1: "\<exists>pre suf. ''A.TIF'' = pre @ CHR ''.'' # suf \<and> CHR ''.'' \<notin> set suf \<and>
             ((\<exists>a b c. suf = [a, b, c] \<and> a \<in> {CHR ''t'', CHR ''T''} \<and>
                        b \<in> {CHR ''i'', CHR ''I''} \<and> c \<in> {CHR ''f'', CHR ''F''}) \<or>
              (\<exists>a b c d. suf = [a, b, c, d] \<and> a \<in> {CHR ''t'', CHR ''T''} \<and>
                          b \<in> {CHR ''i'', CHR ''I''} \<and> c \<in> {CHR ''f'', CHR ''F''} \<and>
                          d \<in> {CHR ''f'', CHR ''F''}))"
    by (rule exI [of _ "''A''"], rule exI [of _ "''TIF''"]) simp
  have p2: "\<exists>pre suf. ''scan.v2.Tiff'' = pre @ CHR ''.'' # suf \<and> CHR ''.'' \<notin> set suf \<and>
             ((\<exists>a b c. suf = [a, b, c] \<and> a \<in> {CHR ''t'', CHR ''T''} \<and>
                        b \<in> {CHR ''i'', CHR ''I''} \<and> c \<in> {CHR ''f'', CHR ''F''}) \<or>
              (\<exists>a b c d. suf = [a, b, c, d] \<and> a \<in> {CHR ''t'', CHR ''T''} \<and>
                          b \<in> {CHR ''i'', CHR ''I''} \<and> c \<in> {CHR ''f'', CHR ''F''} \<and>
                          d \<in> {CHR ''f'', CHR ''F''}))"
    by (rule exI [of _ "''scan.v2''"], rule exI [of _ "''Tiff''"]) simp
  have a1: "allowed_file ''A.TIF'' = Inr True"
    using allowed_file_iff [of "''A.TIF''", THEN conjunct1] p1 by simp
  have a2: "allowed_file ''scan.v2.Tiff'' = Inr True"
    using allowed_file_iff [of "''scan.v2.Tiff''", THEN conjunct1] p2 by simp
  have a3: "allowed_file ''.tif'' = Inr True"
    by (simp add: allowed_file_def py_index_def rsplit1_def lower_def lower_char_def
        ALLOWED_EXTENSIONS_def)
  have a4: "allowed_file ''tif'' = Inr False"
    using allowed_file_iff [of "''tif''", THEN conjunct1] by simp
  have a5: "allowed_file ''a.tif.jpg'' = Inr False"
    by (simp add: allowed_file_def py_index_def rsplit1_def lower_def lower_char_def
        ALLOWED_EXTENSIONS_def)
  have a6: "allowed_file ''a.tif.'' = Inr False"
    by (simp add: allowed_file_def py_index_def rsplit1_def lower_def lower_char_def
        ALLOWED_EXTENSIONS_def)
  have a7: "allowed_file ''a.tiffs'' = Inr False"
    by (simp add: allowed_file_def py_index_def rsplit1_def lower_def lower_char_def
        ALLOWED_EXTENSIONS_def)
  from a1 a2 a3 a4 a5 a6 a7 show ?thesis by simp
qed


text \<open>
  C9. For every uploaded stream, whatever its read position, \<open>check_file_size\<close> answers
  whether the total number of bytes is at most 1 GiB (\<open>2 ^ 30\<close>), leaves the read position
  at 0, and a full read afterwards returns the complete original content.
\<close>

theorem check_file_size_measures_and_rewinds:
  "fst (check_file_size f) = (length (stream_data f) \<le> 2 ^ 30) \<and>
   stream_pos (snd (check_file_size f)) = 0 \<and>
   stream_data (snd (check_file_size f)) = stream_data f \<and>
   filename (snd (check_file_size f)) = filename f \<and>
   fst (read_all (snd (check_file_size f))) = stream_data f"
  by (simp add: check_file_size_def seek_end_def tell_def seek_start_def read_all_def
      MAX_INPUT_FILE_SIZE_def Let_def)

section \<open>Properties of the converter\<close>

lemma round_div_bounds:
  assumes "0 < b"
  shows "2 * (round_div a b * b) \<le> 2 * a + b" and "2 * a < 2 * (round_div a b * b) + b"
proof -
  define q where "q = (2 * a + b) div (2 * b)"
  have q: "round_div a b = q" by (simp add: round_div_def q_def)
  have "q * (2 * b) \<le> 2 * a + b"
    unfolding q_def by (rule div_times_less_eq_dividend)
  then show "2 * (round_div a b * b) \<le> 2 * a + b"
    unfolding q by (simp add: algebra_simps)
  have "2 * a + b < 2 * b + q * (2 * b)"
    unfolding q_def using assms by (intro dividend_less_div_times) simp
  then show "2 * a < 2 * (round_div a b * b) + b"
    unfolding q by (simp add: algebra_simps)
qed

lemma round_div_le_target:
  assumes "h \<le> w" "0 < w"
  shows "round_div (h * m) w \<le> m"
proof -
  have "2 * (h * m) + w \<le> m * (2 * w) + w"
    using assms(1) by (simp add: algebra_simps)
  then have "(2 * (h * m) + w) div (2 * w) \<le> (m * (2 * w) + w) div (2 * w)"
    by (rule div_le_mono)
  also have "\<dots> = m" using assms(2) by simp
  finally show ?thesis by (simp add: round_div_def)
qed

lemma scaled_side_within_one_pixel:
  assumes "0 < w"
  shows "\<bar>int m * int h - int (max 1 (round_div (h * m) w)) * int w\<bar> \<le> int w"
proof -
  define r where "r = round_div (h * m) w"
  have b1: "2 * (r * w) \<le> 2 * (h * m) + w" and b2: "2 * (h * m) < 2 * (r * w) + w"
    unfolding r_def using round_div_bounds [OF assms, of "h * m"] by simp_all
  have i1: "2 * (int r * int w) \<le> 2 * (int m * int h) + int w"
    using b1 by (metis (no_types, opaque_lifting) mult.commute of_nat_add of_nat_mult
        of_nat_le_iff of_nat_numeral)
  have i2: "2 * (int m * int h) < 2 * (int r * int w) + int w"
    using b2 by (metis (no_types, opaque_lifting) mult.commute of_nat_add of_nat_mult
        of_nat_less_iff of_nat_numeral)
  show ?thesis
  proof (cases "r = 0")
    case True
    with i1 i2 show ?thesis unfolding r_def [symmetric] by simp
  next
    case False
    then have "max 1 r = r" by simp
    with i1 i2 show ?thesis unfolding r_def [symmetric] by simp
  qed
qed

lemma thumbnail_wide:
  assumes "height img \<le> width img" "2800 < width img"
  shows "max (width (thumbnail (2800, 2800) img)) (height (thumbnail (2800, 2800) img)) = 2800"
    and "\<bar>int (width (thumbnail (2800, 2800) img)) * int (height img) -
          int (height (thumbnail (2800, 2800) img)) * int (width img)\<bar> \<le> int (width img)"
proof -
  have pos: "0 < width img" using assms(2) by simp
  have "round_div (height img * 2800) (width img) \<le> 2800"
    using round_div_le_target [OF assms(1) pos] .
  then show "max (width (thumbnail (2800, 2800) img)) (height (thumbnail (2800, 2800) img)) = 2800"
    using assms(1) by (simp add: thumbnail_def)
  show "\<bar>int (width (thumbnail (2800, 2800) img)) * int (height img) -
          int (height (thumbnail (2800, 2800) img)) * int (width img)\<bar> \<le> int (width img)"
    using scaled_side_within_one_pixel [OF pos, of 2800 "height img"] assms(1)
    by (simp add: thumbnail_def)
qed

lemma thumbnail_tall:
  assumes "width img < height img" "2800 < height img"
  shows "max (width (thumbnail (2800, 2800) img)) (height (thumbnail (2800, 2800) img)) = 2800"
    and "\<bar>int (width (thumbnail (2800, 2800) img)) * int (height img) -
          int (height (thumbnail (2800, 2800) img)) * int (width img)\<bar> \<le> int (height img)"
proof -
  have pos: "0 < height img" using assms(2) by simp
  have le: "width img \<le> height img" using assms(1) by simp
  have "round_div (width img * 2800) (height img) \<le> 2800"
    using round_div_le_target [OF le pos] .
  then show "max (width (thumbnail (2800, 2800) img)) (height (thumbnail (2800, 2800) img)) = 2800"
    using assms(1) by (simp add: thumbnail_def)
  have "\<bar>int 2800 * int (width img) -
         int (max 1 (round_div (width img * 2800) (height img))) * int (height img)\<bar>
        \<le> int (height img)"
    using scaled_side_within_one_pixel [OF pos, of 2800 "width img"] .
  then show "\<bar>int (width (thumbnail (2800, 2800) img)) * int (height img) -
          int (height (thumbnail (2800, 2800) img)) * int (width img)\<bar> \<le> int (height img)"
    using assms(1) by (simp add: thumbnail_def abs_minus_commute)
qed

text \<open>
  C6. When the input decodes to an image, the converter hands to the JPEG encoder the
  image \<open>resize_if_exceeds (2800, 2800) img\<close>: the decoded image itself when its longer
  side is at most 2800, and otherwise an image whose longer side is exactly 2800 and whose
  shorter side is within one pixel of the proportional value (the cross products of the
  old and new dimensions differ by at most the old longer side).
\<close>

theorem converter_dimensions:
  assumes "fs w inp = Some b" and "image_open env b = Inr img"
  shows "convert_body env inp out (2800, 2800) w =
           img_save env (resize_if_exceeds (2800, 2800) img) out w \<and>
         (max (width img) (height img) \<le> 2800 \<longrightarrow>
            resize_if_exceeds (2800, 2800) img = img) \<and>
         (2800 < max (width img) (height img) \<longrightarrow>
            max (width (resize_if_exceeds (2800, 2800) img))
                (height (resize_if_exceeds (2800, 2800) img)) = 2800 \<and>
            \<bar>int (width (resize_if_exceeds (2800, 2800) img)) * int (height img) -
              int (height (resize_if_exceeds (2800, 2800) img)) * int (width img)\<bar>
              \<le> int (max (width img) (height img)))"
proof (intro conjI impI)
  show "convert_body env inp out (2800, 2800) w =
           img_save env (resize_if_exceeds (2800, 2800) img) out w"
    using assms by (simp add: convert_body_def)
next
  assume "max (width img) (height img) \<le> 2800"
  then show "resize_if_exceeds (2800, 2800) img = img"
    by (auto simp: resize_if_exceeds_def)
next
  assume big: "2800 < max (width img) (height img)"
  then have r: "resize_if_exceeds (2800, 2800) img = thumbnail (2800, 2800) img"
    by (simp add: resize_if_exceeds_def)
  show "max (width (resize_if_exceeds (2800, 2800) img))
                (height (resize_if_exceeds (2800, 2800) img)) = 2800"
  proof (cases "height img \<le> width img")
    case True
    then have "2800 < width img" using big by simp
    from thumbnail_wide(1) [OF True this] show ?thesis unfolding r .
  next
    case False
    then have lt: "width img < height img" by simp
    then have "2800 < height img" using big by simp
    from thumbnail_tall(1) [OF lt this] show ?thesis unfolding r .
  qed
  show "\<bar>int (width (resize_if_exceeds (2800, 2800) img)) * int (height img) -
              int (height (resize_if_exceeds (2800, 2800) img)) * int (width img)\<bar>
              \<le> int (max (width img) (height img))"
  proof (cases "height img \<le> width img")
    case True
    then have "2800 < width img" using big by simp
    from thumbnail_wide(2) [OF True this] True show ?thesis unfolding r by simp
  next
    case False
    then have lt: "width img < height img" by simp
    then have "2800 < height img" using big by simp
    from thumbnail_tall(2) [OF lt this] lt show ?thesis unfolding r by simp
  qed
qed

theorem converter_dimensions_witness:
  "fs (write_file ''uploads/a.tif'' [1] example_world) ''uploads/a.tif'' = Some [1] \<and>
   image_open (example_env 100 100 [7]) [1] = Inr \<lparr>width = 100, height = 100, source = [1]\<rparr> \<and>
   resize_if_exceeds (2800, 2800) \<lparr>width = 100, height = 100, source = [1]\<rparr>
     = \<lparr>width = 100, height = 100, source = [1]\<rparr> \<and>
   image_open (example_env 5000 3000 [7]) [1] = Inr \<lparr>width = 5000, height = 3000, source = [1]\<rparr> \<and>
   max (width (resize_if_exceeds (2800, 2800) \<lparr>width = 5000, height = 3000, source = [1]\<rparr>))
       (height (resize_if_exceeds (2800, 2800) \<lparr>width = 5000, height = 3000, source = [1]\<rparr>))
     = 2800 \<and>
   convert_body (example_env 5000 3000 [7]) ''uploads/a.tif'' ''converted/a.jpg'' (2800, 2800)
       (write_file ''uploads/a.tif'' [1] example_world) =
     img_save (example_env 5000 3000 [7])
       (resize_if_exceeds (2800, 2800) \<lparr>width = 5000, height = 3000, source = [1]\<rparr>)
       ''converted/a.jpg'' (write_file ''uploads/a.tif'' [1] example_world)"
proof -
  have f: "fs (write_file ''uploads/a.tif'' [1] example_world) ''uploads/a.tif'' = Some [1]"
    by (simp add: write_file_def example_world_def)
  have small: "image_open (example_env 100 100 [7]) [1]
                 = Inr \<lparr>width = 100, height = 100, source = [1]\<rparr>"
    by (simp add: example_env_def)
  have big: "image_open (example_env 5000 3000 [7]) [1]
               = Inr \<lparr>width = 5000, height = 3000, source = [1]\<rparr>"
    by (simp add: example_env_def)
  show ?thesis
    using f small big
      converter_dimensions [OF f small, of "''converted/a.jpg''"]
      converter_dimensions [OF f big, of "''converted/a.jpg''"]
    by simp
qed

text \<open>
  C7. \<open>convert_tif_to_jpg\<close> returns a boolean for every input (an exception of its body
  never leaves it). It returns \<open>True\<close> exactly when the input file exists and decodes, the
  JPEG encoder succeeds on the resized image, and the encoded bytes are then the content
  of the output path. It returns \<open>False\<close> exactly when its body raised, which happens
  exactly when the input is missing, the decoder raised or the encoder raised.
\<close>

theorem convert_tif_to_jpg_result:
  "fst (convert_tif_to_jpg env inp out ms w) =
     (\<exists>b img jpg. fs w inp = Some b \<and> image_open env b = Inr img \<and>
        image_save_jpeg env (resize_if_exceeds ms img) out = Inr jpg \<and>
        fs (snd (convert_tif_to_jpg env inp out ms w)) out = Some jpg) \<and>
   (\<not> fst (convert_tif_to_jpg env inp out ms w)) =
     (\<exists>e. fst (convert_body env inp out ms w) = Inl e) \<and>
   (\<exists>e. fst (convert_body env inp out ms w) = Inl e) =
     (fs w inp = None \<or>
      (\<exists>b e. fs w inp = Some b \<and> image_open env b = Inl e) \<or>
      (\<exists>b img e l. fs w inp = Some b \<and> image_open env b = Inr img \<and>
         image_save_jpeg env (resize_if_exceeds ms img) out = Inl (e, l)))"
  by (auto simp: convert_tif_to_jpg_def convert_body_def img_save_def write_file_def
      split: option.splits sum.splits prod.splits)

section \<open>Properties of the pipelines\<close>

lemma batch_pipeline_clean:
  "\<exists>r. fst (batch_file_pipeline env file resp w) = Inr r \<and>
    clean_run (input_path_of env file) w (snd (batch_file_pipeline env file resp w))"
  by (auto simp: batch_file_pipeline_def batch_file_try_def batch_convert_step_def file_save_def
      convert_tif_to_jpg_def convert_body_def img_save_def os_remove_def os_path_exists_def
      os_path_getsize_def write_file_def apply_leftover_def clean_run_def Let_def
      split: option.splits sum.splits prod.splits leftover.splits if_splits bool.splits)

lemma batch_pipeline_one_outcome:
  "\<exists>w'. (\<exists>e. batch_file_pipeline env file resp w = (Inr (fst resp @ [e], snd resp), w') \<and>
              ok_filename e = filename file) \<or>
        (\<exists>f. batch_file_pipeline env file resp w = (Inr (fst resp, snd resp @ [f]), w') \<and>
              failed_filename f = filename file)"
  by (auto simp: batch_file_pipeline_def batch_file_try_def batch_convert_step_def file_save_def
      convert_tif_to_jpg_def convert_body_def img_save_def os_remove_def os_path_exists_def
      os_path_getsize_def write_file_def apply_leftover_def add_success_def add_failure_def Let_def
      split: option.splits sum.splits prod.splits leftover.splits if_splits bool.splits)


lemma allowed_file_total: "\<exists>b. allowed_file f = Inr b"
  by (auto simp: allowed_file_def rsplit1_def py_index_def)

lemma check_file_size_eq:
  "check_file_size f = (length (stream_data f) \<le> MAX_INPUT_FILE_SIZE, f\<lparr>stream_pos := 0\<rparr>)"
  by (simp add: check_file_size_def seek_end_def tell_def seek_start_def Let_def)

lemma batch_file_one_outcome:
  "\<exists>w'. (\<exists>e. batch_file env file resp w = (Inr (fst resp @ [e], snd resp), w') \<and>
              ok_filename e = filename file) \<or>
        (\<exists>f. batch_file env file resp w = (Inr (fst resp, snd resp @ [f]), w') \<and>
              failed_filename f = reported_name file)"
proof (cases "filename file = ''''")
  case True
  then show ?thesis by (simp add: batch_file_def add_failure_def reported_name_def)
next
  case named: False
  obtain b where b: "allowed_file (filename file) = Inr b"
    using allowed_file_total by blast
  show ?thesis
  proof (cases "b \<and> length (stream_data file) \<le> MAX_INPUT_FILE_SIZE")
    case False
    with named b show ?thesis
      by (auto simp: batch_file_def add_failure_def reported_name_def check_file_size_eq)
  next
    case True
    with named b have "batch_file env file resp w =
        batch_file_pipeline env (file\<lparr>stream_pos := 0\<rparr>) resp w"
      by (simp add: batch_file_def check_file_size_eq)
    with batch_pipeline_one_outcome [of env "file\<lparr>stream_pos := 0\<rparr>" resp w] named
    show ?thesis by (simp add: reported_name_def)
  qed
qed

lemma batch_loop_partition:
  "\<exists>ns nf w' verdicts.
     batch_loop env files resp w = (Inr (fst resp @ ns, snd resp @ nf), w') \<and>
     length verdicts = length files \<and>
     map ok_filename ns = map filename (files_with_verdict True files verdicts) \<and>
     map failed_filename nf = map reported_name (files_with_verdict False files verdicts)"
proof (induction files arbitrary: resp w)
  case Nil
  show ?case by (simp add: files_with_verdict_def)
next
  case (Cons fl rest)
  from batch_file_one_outcome [of env fl resp w]
  obtain w1 where step:
    "(\<exists>e. batch_file env fl resp w = (Inr (fst resp @ [e], snd resp), w1) \<and>
              ok_filename e = filename fl) \<or>
     (\<exists>f. batch_file env fl resp w = (Inr (fst resp, snd resp @ [f]), w1) \<and>
              failed_filename f = reported_name fl)"
    by blast
  then show ?case
  proof
    assume "\<exists>e. batch_file env fl resp w = (Inr (fst resp @ [e], snd resp), w1) \<and>
              ok_filename e = filename fl"
    then obtain e where e: "batch_file env fl resp w = (Inr (fst resp @ [e], snd resp), w1)"
      and en: "ok_filename e = filename fl" by blast
    from Cons.IH [of "(fst resp @ [e], snd resp)" w1]
    obtain ns nf w' verdicts where
      l: "batch_loop env rest (fst resp @ [e], snd resp) w1 = (Inr ((fst resp @ [e]) @ ns, snd resp @ nf), w')"
      and v: "length verdicts = length rest"
      and s: "map ok_filename ns = map filename (files_with_verdict True rest verdicts)"
      and f: "map failed_filename nf = map reported_name (files_with_verdict False rest verdicts)"
      by auto
    have "batch_loop env (fl # rest) resp w = (Inr (fst resp @ (e # ns), snd resp @ nf), w')"
      using e l by simp
    moreover have "length (True # verdicts) = length (fl # rest)" using v by simp
    moreover have "map ok_filename (e # ns) = map filename (files_with_verdict True (fl # rest) (True # verdicts))"
      using s en by (simp add: files_with_verdict_def)
    moreover have "map failed_filename nf = map reported_name (files_with_verdict False (fl # rest) (True # verdicts))"
      using f by (simp add: files_with_verdict_def)
    ultimately show ?thesis by blast
  next
    assume "\<exists>f. batch_file env fl resp w = (Inr (fst resp, snd resp @ [f]), w1) \<and>
              failed_filename f = reported_name fl"
    then obtain e where e: "batch_file env fl resp w = (Inr (fst resp, snd resp @ [e]), w1)"
      and en: "failed_filename e = reported_name fl" by blast
    from Cons.IH [of "(fst resp, snd resp @ [e])" w1]
    obtain ns nf w' verdicts where
      l: "batch_loop env rest (fst resp, snd resp @ [e]) w1 = (Inr (fst resp @ ns, (snd resp @ [e]) @ nf), w')"
      and v: "length verdicts = length rest"
      and s: "map ok_filename ns = map filename (files_with_verdict True rest verdicts)"
      and f: "map failed_filename nf = map reported_name (files_with_verdict False rest verdicts)"
      by auto
    have "batch_loop env (fl # rest) resp w = (Inr (fst resp @ ns, snd resp @ (e # nf)), w')"
      using e l by simp
    moreover have "length (False # verdicts) = length (fl # rest)" using v by simp
    moreover have "map ok_filename ns = map filename (files_with_verdict True (fl # rest) (False # verdicts))"
      using s by (simp add: files_with_verdict_def)
    moreover have "map failed_filename (e # nf) = map reported_name (files_with_verdict False (fl # rest) (False # verdicts))"
      using f en by (simp add: files_with_verdict_def)
    ultimately show ?thesis by blast
  qed
qed

lemma verdict_count:
  "length verdicts = length files \<Longrightarrow>
   length (files_with_verdict True files verdicts) + length (files_with_verdict False files verdicts)
     = length files"
proof (induction files arbitrary: verdicts)
  case Nil
  then show ?case by (simp add: files_with_verdict_def)
next
  case (Cons f fs)
  then obtain v vs where "verdicts = v # vs" by (cases verdicts) auto
  with Cons show ?case by (cases v) (auto simp: files_with_verdict_def)
qed


text \<open>
  C2. Every run of the single-file pipeline from the save step on (the \<^verbatim>\<open>try\<close> of
  \<^verbatim>\<open>convert_image\<close> with its handler), and likewise every per-file run of the batch
  pipeline, returns a response rather than an exception, leaves no file at the input path,
  performs no delete that raises, and deletes no path twice. This holds for every
  collaborator behaviour: a failed upload, a failed conversion, an oversized output.
\<close>

theorem input_artifact_cleanup:
  "(\<exists>r. fst (convert_image_pipeline env file w) = Inr r) \<and>
   clean_run (input_path_of env file) w (snd (convert_image_pipeline env file w)) \<and>
   (\<exists>r. fst (batch_file_pipeline env file resp w) = Inr r) \<and>
   clean_run (input_path_of env file) w (snd (batch_file_pipeline env file resp w))"
proof -
  have "\<exists>r. fst (convert_image_pipeline env file w) = Inr r \<and>
    clean_run (input_path_of env file) w (snd (convert_image_pipeline env file w))"
    by (auto simp: convert_image_pipeline_def convert_image_try_def file_save_def
      convert_tif_to_jpg_def convert_body_def img_save_def os_remove_def os_path_exists_def
      os_path_getsize_def send_file_def write_file_def apply_leftover_def clean_run_def Let_def
      split: option.splits sum.splits prod.splits leftover.splits if_splits bool.splits)
  with batch_pipeline_clean [of env "file" resp w] show ?thesis by blast
qed

text \<open>
  C5. For a batch of between 1 and 150 files the endpoint returns the batch response, and
  there is one verdict per input file such that the successes are, in input order, exactly
  the files with verdict \<open>True\<close> and the failures are, in input order, exactly the files
  with verdict \<open>False\<close> (reported under \<open>reported_name\<close>). So every file has exactly one
  outcome in exactly one of the two sequences, and no file ends the loop early.
\<close>

theorem batch_one_outcome_per_file:
  assumes "request_files req ''files[]'' = Some files" and "files \<noteq> []" and "length files \<le> 150"
  shows "\<exists>succ fail status w' verdicts.
     batch_convert_images env req w = (Inr (BatchJson succ fail status), w') \<and>
     length verdicts = length files \<and>
     map ok_filename succ = map filename (files_with_verdict True files verdicts) \<and>
     map failed_filename fail = map reported_name (files_with_verdict False files verdicts) \<and>
     length succ + length fail = length files"
proof -
  from batch_loop_partition [of env files "([], [])" w]
  obtain ns nf w' verdicts where
    l: "batch_loop env files ([], []) w = (Inr (ns, nf), w')"
    and v: "length verdicts = length files"
    and s: "map ok_filename ns = map filename (files_with_verdict True files verdicts)"
    and f: "map failed_filename nf = map reported_name (files_with_verdict False files verdicts)"
    by auto
  have "length ns + length nf = length files"
    using verdict_count [OF v] s f by (metis length_map)
  moreover have "batch_convert_images env req w =
      (Inr (BatchJson ns nf (if ns \<noteq> [] then 200 else 400)), w')"
    using assms l by (simp add: batch_convert_images_def)
  ultimately show ?thesis using v s f by blast
qed

text \<open>
  C3. The batch endpoint answers 400 with an error, leaving the filesystem and the event
  log untouched, when the field is missing (\<^verbatim>\<open>No files provided\<close>), when its list is
  empty (\<^verbatim>\<open>No files selected\<close>) and when it has more than 150 files. Otherwise it runs
  the loop over all files and answers 200 exactly when the successes are not empty, and
  400 exactly when they are, whatever the number of failures.
\<close>

theorem batch_admission:
  "(request_files req ''files[]'' = None \<longrightarrow>
      batch_convert_images env req w = (Inr (JsonError ''No files provided'' 400), w)) \<and>
   (request_files req ''files[]'' = Some [] \<longrightarrow>
      batch_convert_images env req w = (Inr (JsonError ''No files selected'' 400), w)) \<and>
   (request_files req ''files[]'' = Some files \<and> 150 < length files \<longrightarrow>
      batch_convert_images env req w = (Inr (JsonError ''Maximum 150 files allowed per batch'' 400), w)) \<and>
   (request_files req ''files[]'' = Some files \<and> files \<noteq> [] \<and> length files \<le> 150 \<longrightarrow>
      (\<exists>succ fail status w'.
         batch_loop env files ([], []) w = (Inr (succ, fail), w') \<and>
         batch_convert_images env req w = (Inr (BatchJson succ fail status), w') \<and>
         (status = 200) = (succ \<noteq> []) \<and> (status = 400) = (succ = []) \<and>
         length succ + length fail = length files))"
proof (intro conjI impI)
  assume "request_files req ''files[]'' = None"
  then show "batch_convert_images env req w = (Inr (JsonError ''No files provided'' 400), w)"
    by (simp add: batch_convert_images_def)
next
  assume "request_files req ''files[]'' = Some []"
  then show "batch_convert_images env req w = (Inr (JsonError ''No files selected'' 400), w)"
    by (simp add: batch_convert_images_def)
next
  assume "request_files req ''files[]'' = Some files \<and> 150 < length files"
  then show "batch_convert_images env req w =
      (Inr (JsonError ''Maximum 150 files allowed per batch'' 400), w)"
    by (auto simp: batch_convert_images_def)
next
  assume a: "request_files req ''files[]'' = Some files \<and> files \<noteq> [] \<and> length files \<le> 150"
  from batch_loop_partition [of env files "([], [])" w]
  obtain ns nf w' verdicts where
    l: "batch_loop env files ([], []) w = (Inr (ns, nf), w')"
    and v: "length verdicts = length files"
    and s: "map ok_filename ns = map filename (files_with_verdict True files verdicts)"
    and f: "map failed_filename nf = map reported_name (files_with_verdict False files verdicts)"
    by auto
  have n: "length ns + length nf = length files"
    using verdict_count [OF v] s f by (metis length_map)
  have "batch_convert_images env req w =
      (Inr (BatchJson ns nf (if ns \<noteq> [] then 200 else 400)), w')"
    using a l by (simp add: batch_convert_images_def)
  with l n show "\<exists>succ fail status w'.
         batch_loop env files ([], []) w = (Inr (succ, fail), w') \<and>
         batch_convert_images env req w = (Inr (BatchJson succ fail status), w') \<and>
         (status = 200) = (succ \<noteq> []) \<and> (status = 400) = (succ = []) \<and>
         length succ + length fail = length files"
    by (cases "ns = []") auto
qed

text \<open>
  C10. In the batch loop a file whose name is empty is recorded as the failure
  \<^verbatim>\<open>{'filename': 'Unnamed', 'reason': 'File has no name'}\<close>, the filesystem and the event
  log stay as they were, and the loop goes on with the remaining files.
\<close>

theorem unnamed_file_recorded:
  assumes "filename file = ''''"
  shows "batch_file env file resp w =
           (Inr (fst resp, snd resp @ [\<lparr>failed_filename = ''Unnamed'',
                                         failed_reason = ''File has no name''\<rparr>]), w) \<and>
         batch_loop env (file # rest) resp w =
           batch_loop env rest
             (fst resp, snd resp @ [\<lparr>failed_filename = ''Unnamed'',
                                      failed_reason = ''File has no name''\<rparr>]) w"
  using assms by (simp add: batch_file_def add_failure_def)

section \<open>Output size limit\<close>

lemma set_tl_subset: "set (tl xs) \<subseteq> set xs"
  by (cases xs) auto

lemma rsplit1_hd_subset: "set (hd (rsplit1 sep s)) \<subseteq> set s"
proof (cases "sep \<in> set s")
  case False
  then show ?thesis by (simp add: rsplit1_def)
next
  case True
  have "set (tl (dropWhile (\<lambda>c. c \<noteq> sep) (rev s))) \<subseteq> set (dropWhile (\<lambda>c. c \<noteq> sep) (rev s))"
    by (rule set_tl_subset)
  also have "\<dots> \<subseteq> set (rev s)"
    by (auto dest: set_dropWhileD)
  finally show ?thesis using True by (simp add: rsplit1_def)
qed

lemma join_relative:
  assumes "CHR ''/'' \<notin> set b" and "a \<noteq> []" and "last a \<noteq> CHR ''/''"
  shows "os_path_join a b = a @ ''/'' @ b"
proof -
  have "take 1 b \<noteq> ''/''"
    using assms(1) by (cases b) auto
  then show ?thesis using assms(2,3) by (simp add: os_path_join_def)
qed

lemma paths_differ:
  assumes "CHR ''/'' \<notin> set (secure_filename env (filename file))"
  shows "input_path_of env file \<noteq> output_path_of env file"
proof -
  let ?n = "secure_filename env (filename file)"
  have i: "input_path_of env file = ''uploads/'' @ ?n"
    using join_relative [OF assms, of "''uploads''"]
    by (simp add: input_path_of_def UPLOAD_FOLDER_def)
  have "CHR ''/'' \<notin> set (hd (rsplit1 CHR ''.'' ?n) @ ''.jpg'')"
    using assms rsplit1_hd_subset [of "CHR ''.''" ?n] by auto
  from join_relative [OF this, of "''converted''"]
  have "output_path_of env file = ''converted/'' @ hd (rsplit1 CHR ''.'' ?n) @ ''.jpg''"
    by (simp add: output_path_of_def output_filename_of_def OUTPUT_FOLDER_def)
  with i show ?thesis by simp
qed

lemma oversized_single:
  assumes neq: "input_path_of env file \<noteq> output_path_of env file"
    and save: "file_save env file (input_path_of env file) w = (Inr (), w1)"
    and conv: "convert_tif_to_jpg env (input_path_of env file) (output_path_of env file)
                 (2800, 2800) w1 = (True, w2)"
    and out: "fs w2 (output_path_of env file) = Some jpg"
    and big: "MAX_OUTPUT_FILE_SIZE < length jpg"
  shows "\<exists>w'. convert_image_pipeline env file w =
            (Inr (JsonError (''Output file size ('' @ format_mb_1f (length jpg)
                              @ ''MB) exceeds limit of 10.0MB'') 400), w') \<and>
          fs w' (output_path_of env file) = None"
proof -
  have inp: "fs w2 (input_path_of env file) \<noteq> None"
    using save conv neq
    by (auto simp: file_save_def convert_tif_to_jpg_def convert_body_def img_save_def
        write_file_def apply_leftover_def Let_def
        split: option.splits sum.splits prod.splits leftover.splits)
  then obtain d where d: "fs w2 (input_path_of env file) = Some d" by blast
  show ?thesis
    using save conv out big neq d
    by (simp add: convert_image_pipeline_def convert_image_try_def os_remove_def
        os_path_getsize_def Let_def)
qed





section \<open>Status codes of the single-file endpoint\<close>

lemma rewound_simps [simp]:
  "filename (rewound f) = filename f"
  "stream_data (rewound f) = stream_data f"
  "stream_pos (rewound f) = 0"
  by (simp_all add: rewound_def check_file_size_eq)

lemma rewound_paths [simp]:
  "input_path_of env (rewound f) = input_path_of env f"
  "output_path_of env (rewound f) = output_path_of env f"
  by (simp_all add: input_path_of_def output_path_of_def output_filename_of_def)

lemma convert_image_validated:
  assumes "request_files req ''file'' = Some (file # others)" and "passes_validation file"
  shows "convert_image env req w = convert_image_pipeline env (rewound file) w"
  using assms
  by (simp add: convert_image_def passes_validation_def rewound_def check_file_size_eq)

lemma try_never_generic:
  "fst (convert_image_try env file w) \<noteq> Inr (JsonError ''Internal server error'' 500)"
  by (auto simp: convert_image_try_def send_file_def Let_def
      split: option.splits sum.splits prod.splits if_splits bool.splits)

lemma pipeline_of_try:
  "fst (convert_image_pipeline env file w) =
     (case fst (convert_image_try env file w) of
        Inr r \<Rightarrow> Inr r
      | Inl e \<Rightarrow> Inr (JsonError ''Internal server error'' 500))"
  by (auto simp: convert_image_pipeline_def os_remove_def os_path_exists_def
      split: option.splits sum.splits prod.splits)

lemma conversion_failed_single:
  assumes "file_save env file (input_path_of env file) w = (Inr (), w1)"
    and "\<not> fst (convert_tif_to_jpg env (input_path_of env file) (output_path_of env file)
                  (2800, 2800) w1)"
  shows "fst (convert_image_pipeline env file w) = Inr (JsonError ''Conversion failed'' 500)"
  using assms
  by (auto simp: pipeline_of_try convert_image_try_def os_remove_def os_path_exists_def Let_def
      split: option.splits sum.splits prod.splits bool.splits)


text \<open>
  C1 (as amended). \<^verbatim>\<open>POST /convert\<close> answers
  \<^item> 400 with \<^verbatim>\<open>{'error': reason}\<close> when the field \<^verbatim>\<open>file\<close> is missing, when the file
    name is empty, when the extension is not allowed, when the upload is larger than
    1 GiB, and when the converted output is larger than 10 MiB;
  \<^item> 500 with \<^verbatim>\<open>{'error': 'Conversion failed'}\<close> when the upload was stored and the
    converter returned \<open>False\<close>;
  \<^item> 500 with \<^verbatim>\<open>{'error': 'Internal server error'}\<close> when an exception was raised inside
    the \<^verbatim>\<open>try\<close>, and only then.
\<close>

theorem convert_image_status_codes:
  "(request_files req ''file'' = None \<longrightarrow>
      convert_image env req w = (Inr (JsonError ''No file provided'' 400), w)) \<and>
   (request_files req ''file'' = Some (f # others) \<and> filename f = '''' \<longrightarrow>
      convert_image env req w = (Inr (JsonError ''No file selected'' 400), w)) \<and>
   (request_files req ''file'' = Some (f # others) \<and> filename f \<noteq> '''' \<and>
    allowed_file (filename f) = Inr False \<longrightarrow>
      convert_image env req w =
        (Inr (JsonError ''Invalid file type. Only TIF/TIFF files are allowed'' 400), w)) \<and>
   (request_files req ''file'' = Some (f # others) \<and> filename f \<noteq> '''' \<and>
    allowed_file (filename f) = Inr True \<and> MAX_INPUT_FILE_SIZE < length (stream_data f) \<longrightarrow>
      convert_image env req w =
        (Inr (JsonError ''File size exceeds maximum limit of 1024.0MB'' 400), w)) \<and>
   (request_files req ''file'' = Some (f # others) \<and> passes_validation f \<and>
    CHR ''/'' \<notin> set (secure_filename env (filename f)) \<and>
    file_save env (rewound f) (input_path_of env f) w = (Inr (), w1) \<and>
    convert_tif_to_jpg env (input_path_of env f) (output_path_of env f) (2800, 2800) w1
      = (True, w2) \<and>
    fs w2 (output_path_of env f) = Some jpg \<and> MAX_OUTPUT_FILE_SIZE < length jpg \<longrightarrow>
      fst (convert_image env req w) =
        Inr (JsonError (''Output file size ('' @ format_mb_1f (length jpg)
                         @ ''MB) exceeds limit of 10.0MB'') 400)) \<and>
   (request_files req ''file'' = Some (f # others) \<and> passes_validation f \<and>
    file_save env (rewound f) (input_path_of env f) w = (Inr (), w1) \<and>
    \<not> fst (convert_tif_to_jpg env (input_path_of env f) (output_path_of env f) (2800, 2800) w1)
    \<longrightarrow> fst (convert_image env req w) = Inr (JsonError ''Conversion failed'' 500)) \<and>
   (request_files req ''file'' = Some (f # others) \<and> passes_validation f \<and>
    fst (convert_image_try env (rewound f) w) = Inl e
    \<longrightarrow> fst (convert_image env req w) = Inr (JsonError ''Internal server error'' 500)) \<and>
   (fst (convert_image env req w) = Inr (JsonError ''Internal server error'' 500) \<longrightarrow>
      (\<exists>g rest x. request_files req ''file'' = Some (g # rest) \<and> passes_validation g \<and>
                  fst (convert_image_try env (rewound g) w) = Inl x))"
proof (intro conjI impI)
  assume "request_files req ''file'' = None"
  then show "convert_image env req w = (Inr (JsonError ''No file provided'' 400), w)"
    by (simp add: convert_image_def)
next
  assume "request_files req ''file'' = Some (f # others) \<and> filename f = ''''"
  then show "convert_image env req w = (Inr (JsonError ''No file selected'' 400), w)"
    by (simp add: convert_image_def)
next
  assume "request_files req ''file'' = Some (f # others) \<and> filename f \<noteq> '''' \<and>
    allowed_file (filename f) = Inr False"
  then show "convert_image env req w =
        (Inr (JsonError ''Invalid file type. Only TIF/TIFF files are allowed'' 400), w)"
    by (simp add: convert_image_def)
next
  assume "request_files req ''file'' = Some (f # others) \<and> filename f \<noteq> '''' \<and>
    allowed_file (filename f) = Inr True \<and> MAX_INPUT_FILE_SIZE < length (stream_data f)"
  then show "convert_image env req w =
        (Inr (JsonError ''File size exceeds maximum limit of 1024.0MB'' 400), w)"
    by (simp add: convert_image_def check_file_size_eq)
next
  assume a: "request_files req ''file'' = Some (f # others) \<and> passes_validation f \<and>
    CHR ''/'' \<notin> set (secure_filename env (filename f)) \<and>
    file_save env (rewound f) (input_path_of env f) w = (Inr (), w1) \<and>
    convert_tif_to_jpg env (input_path_of env f) (output_path_of env f) (2800, 2800) w1
      = (True, w2) \<and>
    fs w2 (output_path_of env f) = Some jpg \<and> MAX_OUTPUT_FILE_SIZE < length jpg"
  then have v: "convert_image env req w = convert_image_pipeline env (rewound f) w"
    using convert_image_validated by blast
  have neq: "input_path_of env (rewound f) \<noteq> output_path_of env (rewound f)"
    using a paths_differ [of env f] by simp
  from a oversized_single [OF neq, of w w1 w2 jpg]
  show "fst (convert_image env req w) =
        Inr (JsonError (''Output file size ('' @ format_mb_1f (length jpg)
                         @ ''MB) exceeds limit of 10.0MB'') 400)"
    unfolding v by auto
next
  assume a: "request_files req ''file'' = Some (f # others) \<and> passes_validation f \<and>
    file_save env (rewound f) (input_path_of env f) w = (Inr (), w1) \<and>
    \<not> fst (convert_tif_to_jpg env (input_path_of env f) (output_path_of env f) (2800, 2800) w1)"
  then have v: "convert_image env req w = convert_image_pipeline env (rewound f) w"
    using convert_image_validated by blast
  from a conversion_failed_single [of env "rewound f" w w1]
  show "fst (convert_image env req w) = Inr (JsonError ''Conversion failed'' 500)"
    unfolding v by simp
next
  assume a: "request_files req ''file'' = Some (f # others) \<and> passes_validation f \<and>
    fst (convert_image_try env (rewound f) w) = Inl e"
  then have v: "convert_image env req w = convert_image_pipeline env (rewound f) w"
    using convert_image_validated by blast
  from a show "fst (convert_image env req w) = Inr (JsonError ''Internal server error'' 500)"
    unfolding v by (simp add: pipeline_of_try)
next
  assume g: "fst (convert_image env req w) = Inr (JsonError ''Internal server error'' 500)"
  show "\<exists>g rest x. request_files req ''file'' = Some (g # rest) \<and> passes_validation g \<and>
                  fst (convert_image_try env (rewound g) w) = Inl x"
  proof (cases "request_files req ''file''")
    case None
    with g show ?thesis by (simp add: convert_image_def)
  next
    case (Some l)
    show ?thesis
    proof (cases l)
      case Nil
      with Some g show ?thesis by (simp add: convert_image_def)
    next
      case (Cons h rest)
      obtain b where b: "allowed_file (filename h) = Inr b"
        using allowed_file_total by blast
      have pv: "passes_validation h"
        using g Some Cons b
        by (auto simp: convert_image_def passes_validation_def check_file_size_eq
            split: if_splits)
      have r: "request_files req ''file'' = Some (h # rest)"
        using Some Cons by simp
      have v: "convert_image env req w = convert_image_pipeline env (rewound h) w"
        using convert_image_validated [OF r pv] .
      have "\<exists>x. fst (convert_image_try env (rewound h) w) = Inl x"
        using g try_never_generic [of env "rewound h" w] unfolding v pipeline_of_try
        by (cases "fst (convert_image_try env (rewound h) w)") auto
      with r pv show ?thesis by blast
    qed
  qed
qed

text \<open>
  The claim as first stated (a failed conversion answers 400, and only unexpected failures
  answer 500) fails on an upload \<^verbatim>\<open>a.tif\<close> whose content does not decode: the converter
  returns \<open>False\<close> and the endpoint answers 500 with \<^verbatim>\<open>Conversion failed\<close>.
\<close>

theorem conversion_failure_is_500:
  "\<not> fst (convert_tif_to_jpg (example_env 100 100 [7]) ''uploads/a.tif'' ''converted/a.jpg''
           (2800, 2800) (write_file ''uploads/a.tif'' [] example_world)) \<and>
   convert_image (example_env 100 100 [7]) (example_request (example_file ''a.tif'' []))
     example_world
     = (Inr (JsonError ''Conversion failed'' 500),
        \<lparr>fs = Map.empty, events = [Removed ''uploads/a.tif'']\<rparr>)"
  by (simp add: convert_image_def convert_image_pipeline_def convert_image_try_def file_save_def
      convert_tif_to_jpg_def convert_body_def img_save_def os_remove_def os_path_exists_def
      write_file_def Let_def input_path_of_def output_path_of_def output_filename_of_def
      os_path_join_def UPLOAD_FOLDER_def OUTPUT_FOLDER_def rsplit1_def
      MAX_INPUT_FILE_SIZE_def allowed_file_def py_index_def lower_def
      lower_char_def ALLOWED_EXTENSIONS_def check_file_size_def seek_end_def seek_start_def
      tell_def example_env_def example_world_def example_file_def example_request_def)


section \<open>The theorems on the example inputs\<close>

lemmas example_defs = example_env_def example_world_def example_file_def example_request_def
  example_batch_def example_faulty_env_def

lemmas validator_defs = allowed_file_def py_index_def rsplit1_def lower_def lower_char_def
  ALLOWED_EXTENSIONS_def check_file_size_def seek_end_def seek_start_def tell_def
  MAX_INPUT_FILE_SIZE_def passes_validation_def rewound_def

lemmas path_defs = input_path_of_def output_path_of_def output_filename_of_def os_path_join_def
  UPLOAD_FOLDER_def OUTPUT_FOLDER_def

lemmas pipeline_defs = convert_image_def convert_image_pipeline_def convert_image_try_def
  file_save_def convert_tif_to_jpg_def convert_body_def img_save_def os_remove_def
  os_path_exists_def os_path_getsize_def send_file_def write_file_def apply_leftover_def
  resize_if_exceeds_def MAX_OUTPUT_FILE_SIZE_def Let_def

lemmas batch_defs = batch_convert_images_def batch_file_def batch_file_pipeline_def
  batch_file_try_def batch_convert_step_def add_success_def add_failure_def round_mb_2_def
  round_half_even_def

theorem convert_image_status_codes_witness:
  "convert_image (example_env 100 100 [7]) \<lparr>request_files = Map.empty\<rparr> example_world
     = (Inr (JsonError ''No file provided'' 400), example_world) \<and>
   convert_image (example_env 100 100 [7]) (example_request (example_file '''' [1])) example_world
     = (Inr (JsonError ''No file selected'' 400), example_world) \<and>
   convert_image (example_env 100 100 [7]) (example_request (example_file ''b.txt'' [1]))
       example_world
     = (Inr (JsonError ''Invalid file type. Only TIF/TIFF files are allowed'' 400),
        example_world) \<and>
   convert_image (example_env 100 100 [7])
       (example_request (example_file ''a.tif'' (replicate 1073741825 0))) example_world
     = (Inr (JsonError ''File size exceeds maximum limit of 1024.0MB'' 400), example_world) \<and>
   passes_validation (example_file ''a.tif'' [1]) \<and>
   fst (convert_image (example_env 100 100 (replicate 10485761 0))
          (example_request (example_file ''a.tif'' [1])) example_world)
     = Inr (JsonError (''Output file size ('' @ format_mb_1f 10485761
                       @ ''MB) exceeds limit of 10.0MB'') 400) \<and>
   passes_validation (example_file ''a.tif'' []) \<and>
   \<not> fst (convert_tif_to_jpg (example_env 100 100 [7]) ''uploads/a.tif'' ''converted/a.jpg''
           (2800, 2800) (write_file ''uploads/a.tif'' [] example_world)) \<and>
   fst (convert_image (example_env 100 100 [7]) (example_request (example_file ''a.tif'' []))
          example_world)
     = Inr (JsonError ''Conversion failed'' 500) \<and>
   fst (convert_image_try example_faulty_env (rewound (example_file ''a.tif'' [1])) example_world)
     = Inl OSError \<and>
   fst (convert_image example_faulty_env (example_request (example_file ''a.tif'' [1]))
          example_world)
     = Inr (JsonError ''Internal server error'' 500)"
proof -
  note T = convert_image_status_codes
  let ?E = "example_env 100 100 [7]"
  let ?B = "example_env 100 100 (replicate 10485761 0)"
  have pv1: "passes_validation (example_file ''a.tif'' [1])"
    by (simp add: validator_defs example_defs)
  have pv0: "passes_validation (example_file ''a.tif'' [])"
    by (simp add: validator_defs example_defs)
  have A: "convert_image ?E \<lparr>request_files = Map.empty\<rparr> example_world
     = (Inr (JsonError ''No file provided'' 400), example_world)"
    by (rule T [THEN conjunct1, THEN mp]) simp
  have B: "convert_image ?E (example_request (example_file '''' [1])) example_world
     = (Inr (JsonError ''No file selected'' 400), example_world)"
    by (rule T [where f = "example_file '''' [1]" and others = "[]",
          THEN conjunct2, THEN conjunct1, THEN mp])
       (simp add: example_defs)
  have C: "convert_image ?E (example_request (example_file ''b.txt'' [1])) example_world
     = (Inr (JsonError ''Invalid file type. Only TIF/TIFF files are allowed'' 400),
        example_world)"
    by (rule T [where f = "example_file ''b.txt'' [1]" and others = "[]",
          THEN conjunct2, THEN conjunct2, THEN conjunct1, THEN mp])
       (simp add: example_defs validator_defs)
  have D: "convert_image ?E (example_request (example_file ''a.tif'' (replicate 1073741825 0)))
       example_world
     = (Inr (JsonError ''File size exceeds maximum limit of 1024.0MB'' 400), example_world)"
    by (rule T [where f = "example_file ''a.tif'' (replicate 1073741825 0)" and others = "[]",
          THEN conjunct2, THEN conjunct2, THEN conjunct2, THEN conjunct1, THEN mp])
       (simp add: example_defs validator_defs)
  have F: "fst (convert_image ?B (example_request (example_file ''a.tif'' [1])) example_world)
     = Inr (JsonError (''Output file size ('' @ format_mb_1f (length (replicate 10485761 (0 :: 8 word)))
                       @ ''MB) exceeds limit of 10.0MB'') 400)"
    by (rule T [where f = "example_file ''a.tif'' [1]" and others = "[]"
            and ?w1.0 = "write_file ''uploads/a.tif'' [1] example_world"
            and ?w2.0 = "write_file ''converted/a.jpg'' (replicate 10485761 0)
                          (write_file ''uploads/a.tif'' [1] example_world)",
          THEN conjunct2, THEN conjunct2, THEN conjunct2, THEN conjunct2, THEN conjunct1, THEN mp])
       (simp add: pv1, simp add: example_defs validator_defs path_defs pipeline_defs)
  have cf: "\<not> fst (convert_tif_to_jpg ?E ''uploads/a.tif'' ''converted/a.jpg''
           (2800, 2800) (write_file ''uploads/a.tif'' [] example_world))"
    by (simp add: example_defs pipeline_defs)
  have E: "fst (convert_image ?E (example_request (example_file ''a.tif'' [])) example_world)
     = Inr (JsonError ''Conversion failed'' 500)"
    by (rule T [where f = "example_file ''a.tif'' []" and others = "[]"
            and ?w1.0 = "write_file ''uploads/a.tif'' [] example_world",
          THEN conjunct2, THEN conjunct2, THEN conjunct2, THEN conjunct2, THEN conjunct2,
          THEN conjunct1, THEN mp])
       (simp add: pv0, simp add: example_defs validator_defs path_defs pipeline_defs)
  have tr: "fst (convert_image_try example_faulty_env (rewound (example_file ''a.tif'' [1]))
              example_world) = Inl OSError"
    by (simp add: example_defs validator_defs path_defs pipeline_defs)
  have G: "fst (convert_image example_faulty_env (example_request (example_file ''a.tif'' [1]))
          example_world)
     = Inr (JsonError ''Internal server error'' 500)"
    by (rule T [where f = "example_file ''a.tif'' [1]" and others = "[]" and e = OSError,
          THEN conjunct2, THEN conjunct2, THEN conjunct2, THEN conjunct2, THEN conjunct2,
          THEN conjunct2, THEN conjunct1, THEN mp])
       (simp add: pv1 tr, simp add: example_defs)
  from A B C D F cf E tr G pv1 pv0 show ?thesis by simp
qed


theorem input_artifact_cleanup_witness:
  "convert_image_pipeline example_faulty_env (example_file ''a.tif'' [1]) example_world
     = (Inr (JsonError ''Internal server error'' 500),
        \<lparr>fs = Map.empty, events = [Removed ''uploads/a.tif'']\<rparr>) \<and>
   clean_run ''uploads/a.tif'' example_world
     (snd (convert_image_pipeline example_faulty_env (example_file ''a.tif'' [1]) example_world)) \<and>
   clean_run ''uploads/a.tif'' example_world
     (snd (batch_file_pipeline example_faulty_env (example_file ''a.tif'' [1]) ([], [])
             example_world))"
proof -
  have i: "input_path_of example_faulty_env (example_file ''a.tif'' [1]) = ''uploads/a.tif''"
    by (simp add: path_defs example_defs)
  have r: "convert_image_pipeline example_faulty_env (example_file ''a.tif'' [1]) example_world
     = (Inr (JsonError ''Internal server error'' 500),
        \<lparr>fs = Map.empty, events = [Removed ''uploads/a.tif'']\<rparr>)"
    by (simp add: example_defs path_defs pipeline_defs)
  from input_artifact_cleanup [of example_faulty_env "example_file ''a.tif'' [1]" example_world
      "([], [])"] r
  show ?thesis unfolding i by simp
qed

theorem batch_one_outcome_per_file_witness:
  "request_files (example_batch [example_file ''a.tif'' [1], example_file ''b.txt'' [1],
                                 example_file '''' [1]]) ''files[]''
     = Some [example_file ''a.tif'' [1], example_file ''b.txt'' [1], example_file '''' [1]] \<and>
   length [example_file ''a.tif'' [1], example_file ''b.txt'' [1], example_file '''' [1]] \<le> 150 \<and>
   (\<exists>succ fail status w' verdicts.
      batch_convert_images (example_env 100 100 [7])
        (example_batch [example_file ''a.tif'' [1], example_file ''b.txt'' [1],
                        example_file '''' [1]]) example_world
        = (Inr (BatchJson succ fail status), w') \<and>
      length verdicts =
        length [example_file ''a.tif'' [1], example_file ''b.txt'' [1], example_file '''' [1]] \<and>
      map ok_filename succ = map filename
        (files_with_verdict True
           [example_file ''a.tif'' [1], example_file ''b.txt'' [1], example_file '''' [1]]
           verdicts) \<and>
      map failed_filename fail = map reported_name
        (files_with_verdict False
           [example_file ''a.tif'' [1], example_file ''b.txt'' [1], example_file '''' [1]]
           verdicts) \<and>
      length succ + length fail =
        length [example_file ''a.tif'' [1], example_file ''b.txt'' [1], example_file '''' [1]]) \<and>
   fst (batch_convert_images (example_env 100 100 [7])
        (example_batch [example_file ''a.tif'' [1], example_file ''b.txt'' [1],
                        example_file '''' [1]]) example_world)
     = Inr (BatchJson
         [\<lparr>ok_filename = ''a.tif'', ok_output_path = ''converted/a.jpg'', ok_output_size_mb = 0\<rparr>]
         [\<lparr>failed_filename = ''b.txt'', failed_reason = ''Invalid file type''\<rparr>,
          \<lparr>failed_filename = ''Unnamed'', failed_reason = ''File has no name''\<rparr>]
         200)"
proof -
  let ?fs = "[example_file ''a.tif'' [1], example_file ''b.txt'' [1], example_file '''' [1]]"
  have h1: "request_files (example_batch ?fs) ''files[]'' = Some ?fs"
    by (simp add: example_batch_def)
  have h2: "?fs \<noteq> []" by simp
  have h3: "length ?fs \<le> 150" by simp
  have r: "fst (batch_convert_images (example_env 100 100 [7]) (example_batch ?fs) example_world)
     = Inr (BatchJson
         [\<lparr>ok_filename = ''a.tif'', ok_output_path = ''converted/a.jpg'', ok_output_size_mb = 0\<rparr>]
         [\<lparr>failed_filename = ''b.txt'', failed_reason = ''Invalid file type''\<rparr>,
          \<lparr>failed_filename = ''Unnamed'', failed_reason = ''File has no name''\<rparr>]
         200)"
    by (simp add: example_defs validator_defs path_defs pipeline_defs batch_defs)
  from batch_one_outcome_per_file [OF h1 h2 h3, of "example_env 100 100 [7]" example_world] h1 h3 r
  show ?thesis by blast
qed

theorem batch_admission_witness:
  "batch_convert_images (example_env 100 100 [7]) \<lparr>request_files = Map.empty\<rparr> example_world
     = (Inr (JsonError ''No files provided'' 400), example_world) \<and>
   batch_convert_images (example_env 100 100 [7]) (example_batch []) example_world
     = (Inr (JsonError ''No files selected'' 400), example_world) \<and>
   batch_convert_images (example_env 100 100 [7])
       (example_batch (replicate 151 (example_file ''a.tif'' [1]))) example_world
     = (Inr (JsonError ''Maximum 150 files allowed per batch'' 400), example_world) \<and>
   (\<exists>succ fail status w'.
      batch_loop (example_env 100 100 [7])
        [example_file ''a.tif'' [1], example_file ''b.txt'' [1]] ([], []) example_world
        = (Inr (succ, fail), w') \<and>
      batch_convert_images (example_env 100 100 [7])
        (example_batch [example_file ''a.tif'' [1], example_file ''b.txt'' [1]]) example_world
        = (Inr (BatchJson succ fail status), w') \<and>
      (status = 200) = (succ \<noteq> []) \<and> (status = 400) = (succ = []) \<and>
      length succ + length fail =
        length [example_file ''a.tif'' [1], example_file ''b.txt'' [1]]) \<and>
   fst (batch_convert_images (example_env 100 100 [7])
        (example_batch [example_file ''a.tif'' [1], example_file ''b.txt'' [1]]) example_world)
     = Inr (BatchJson
         [\<lparr>ok_filename = ''a.tif'', ok_output_path = ''converted/a.jpg'', ok_output_size_mb = 0\<rparr>]
         [\<lparr>failed_filename = ''b.txt'', failed_reason = ''Invalid file type''\<rparr>]
         200) \<and>
   fst (batch_convert_images (example_env 100 100 [7])
        (example_batch [example_file ''a.tif'' [], example_file ''b.txt'' [1]]) example_world)
     = Inr (BatchJson []
         [\<lparr>failed_filename = ''a.tif'', failed_reason = ''Conversion failed''\<rparr>,
          \<lparr>failed_filename = ''b.txt'', failed_reason = ''Invalid file type''\<rparr>]
         400)"
proof -
  note T = batch_admission
  let ?E = "example_env 100 100 [7]"
  let ?fs = "[example_file ''a.tif'' [1], example_file ''b.txt'' [1]]"
  have A: "batch_convert_images ?E \<lparr>request_files = Map.empty\<rparr> example_world
     = (Inr (JsonError ''No files provided'' 400), example_world)"
    by (rule T [THEN conjunct1, THEN mp]) simp
  have B: "batch_convert_images ?E (example_batch []) example_world
     = (Inr (JsonError ''No files selected'' 400), example_world)"
    by (rule T [THEN conjunct2, THEN conjunct1, THEN mp]) (simp add: example_batch_def)
  have C: "batch_convert_images ?E (example_batch (replicate 151 (example_file ''a.tif'' [1])))
       example_world
     = (Inr (JsonError ''Maximum 150 files allowed per batch'' 400), example_world)"
    by (rule T [where files = "replicate 151 (example_file ''a.tif'' [1])",
          THEN conjunct2, THEN conjunct2, THEN conjunct1, THEN mp])
       (simp add: example_batch_def)
  have D: "\<exists>succ fail status w'.
      batch_loop ?E ?fs ([], []) example_world = (Inr (succ, fail), w') \<and>
      batch_convert_images ?E (example_batch ?fs) example_world
        = (Inr (BatchJson succ fail status), w') \<and>
      (status = 200) = (succ \<noteq> []) \<and> (status = 400) = (succ = []) \<and>
      length succ + length fail = length ?fs"
    by (rule T [where files = ?fs,
          THEN conjunct2, THEN conjunct2, THEN conjunct2, THEN mp])
       (simp add: example_batch_def)
  have r1: "fst (batch_convert_images ?E (example_batch ?fs) example_world)
     = Inr (BatchJson
         [\<lparr>ok_filename = ''a.tif'', ok_output_path = ''converted/a.jpg'', ok_output_size_mb = 0\<rparr>]
         [\<lparr>failed_filename = ''b.txt'', failed_reason = ''Invalid file type''\<rparr>]
         200)"
    by (simp add: example_defs validator_defs path_defs pipeline_defs batch_defs)
  have r2: "fst (batch_convert_images ?E
        (example_batch [example_file ''a.tif'' [], example_file ''b.txt'' [1]]) example_world)
     = Inr (BatchJson []
         [\<lparr>failed_filename = ''a.tif'', failed_reason = ''Conversion failed''\<rparr>,
          \<lparr>failed_filename = ''b.txt'', failed_reason = ''Invalid file type''\<rparr>]
         400)"
    by (simp add: example_defs validator_defs path_defs pipeline_defs batch_defs)
  from A B C D r1 r2 show ?thesis by blast
qed

theorem unnamed_file_recorded_witness:
  "filename (example_file '''' [1]) = '''' \<and>
   batch_file (example_env 100 100 [7]) (example_file '''' [1]) ([], []) example_world
     = (Inr ([], [\<lparr>failed_filename = ''Unnamed'', failed_reason = ''File has no name''\<rparr>]),
        example_world) \<and>
   batch_loop (example_env 100 100 [7]) [example_file '''' [1], example_file ''b.txt'' [1]]
       ([], []) example_world
     = (Inr ([], [\<lparr>failed_filename = ''Unnamed'', failed_reason = ''File has no name''\<rparr>,
                  \<lparr>failed_filename = ''b.txt'', failed_reason = ''Invalid file type''\<rparr>]),
        example_world)"
proof -
  have h: "filename (example_file '''' [1]) = ''''"
    by (simp add: example_file_def)
  have rest: "batch_loop (example_env 100 100 [7]) [example_file ''b.txt'' [1]]
       ([], [\<lparr>failed_filename = ''Unnamed'', failed_reason = ''File has no name''\<rparr>])
       example_world
     = (Inr ([], [\<lparr>failed_filename = ''Unnamed'', failed_reason = ''File has no name''\<rparr>,
                  \<lparr>failed_filename = ''b.txt'', failed_reason = ''Invalid file type''\<rparr>]),
        example_world)"
    by (simp add: example_defs validator_defs batch_defs)
  from unnamed_file_recorded [OF h, of "example_env 100 100 [7]" "([], [])" example_world
      "[example_file ''b.txt'' [1]]"] h rest
  show ?thesis by simp
qed


end
